theory Spec2Isabelle
  imports Complex_Main "HOL-Library.Sublist"
begin

section \<open>Data model\<close>

text \<open>
  The program is \<^verbatim>\<open>streamlit_app.py\<close>: a parcel viewer that filters a GeoDataFrame
  by attribute predicates and by proximity to a point, derives a popup string per
  surviving row, and renders at most 1000 rows.

  Numbers are modelled as \<^typ>\<open>real\<close>: a finite float denotes a real, and the order
  comparisons of the source are exact on these. A missing numeric cell (NaN) is
  \<open>None\<close>. Arithmetic (\<^verbatim>\<open>distance_miles * 1609.34\<close>, the padding of the bounds) is the
  exact arithmetic of the reals; the rounding of binary floating point is not modelled.
  Strings are lists of 8-bit characters, the bytes of their UTF-8 encoding. The search
  of a regular expression is written out for ASCII patterns on ASCII text, where the
  case folding of \<^verbatim>\<open>re.IGNORECASE\<close> is that of the 26 letters; a search that involves a
  character outside ASCII is left to the library.
\<close>

type_synonym geometry = "(real \<times> real) list"
  \<comment> \<open>a shapely geometry, as the sequence of its coordinates \<open>(x, y)\<close>\<close>

text \<open>One row of the GeoDataFrame: the index label and the columns kept by
  \<^verbatim>\<open>load_parcels\<close> (line 20).\<close>

record row =
  idx :: nat
  OWNERNME1 :: "string option"
  PLACENAME :: "string option"
  ZIPCODE :: "string option"
  SCHOOLDIST :: "string option"
  ESTFMKVALU :: "real option"
  PSTLADRESS :: "string option"
  SITEADRESS :: "string option"
  GISACRES :: "real option"
  URL :: "string option"
  geometry :: geometry

text \<open>A GeoDataFrame: its CRS (\<open>None\<close> for a frame without one, as \<^verbatim>\<open>gpd.GeoDataFrame()\<close>),
  its rows in order, and the column \<^verbatim>\<open>popup_content\<close> when it has been assigned.\<close>

record frame =
  crs :: "string option"
  rows :: "row list"
  popup_content :: "string list option"

datatype failure =
  Re_error
    \<comment> \<open>the owner pattern does not compile as a regular expression: \<^verbatim>\<open>re.error\<close>\<close>
  | Naive_crs
    \<comment> \<open>\<^verbatim>\<open>to_crs\<close> on a frame without CRS: ValueError\<close>
  | Missing_popup
    \<comment> \<open>a reader of the column \<^verbatim>\<open>popup_content\<close> on a frame without it: the KeyError of
        \<^verbatim>\<open>row['popup_content']\<close>, or the assertion of folium's popup on its fields\<close>

text \<open>
  The library operations whose results depend on floating-point geometry, on number
  formatting or on the whole syntax of regular expressions are parameters of the model:
  \<open>transform src dst g\<close> is pyproj's reprojection of one geometry, \<open>buffer g r\<close> and
  \<open>intersects g h\<close> and \<open>centroid g\<close> are shapely's, \<open>repr_float x\<close> is Python's \<^verbatim>\<open>str\<close> of a
  float, \<open>re_valid pat\<close> tells whether \<^verbatim>\<open>re.compile(pat, re.IGNORECASE)\<close> returns rather than
  raises \<^verbatim>\<open>re.error\<close>, and \<open>re_found pat s\<close> is what the search of a pattern that compiles
  finds in the string \<open>s\<close>.
\<close>

record libs =
  transform :: "string \<Rightarrow> string \<Rightarrow> geometry \<Rightarrow> geometry"
  buffer :: "geometry \<Rightarrow> real \<Rightarrow> geometry"
  intersects :: "geometry \<Rightarrow> geometry \<Rightarrow> bool"
  centroid :: "geometry \<Rightarrow> real \<times> real"
  repr_float :: "real \<Rightarrow> string"
  re_valid :: "string \<Rightarrow> bool"
  re_found :: "string \<Rightarrow> string \<Rightarrow> bool"

section \<open>Python truthiness\<close>

text \<open>
  \<^verbatim>\<open>None\<close>, the empty string, the empty list and the number zero are false in a
  condition; every other string, list and number is true. Each \<^verbatim>\<open>if x:\<close> of the source
  is written out as these cases.
\<close>

section \<open>The pandas operations used by the filter\<close>

text \<open>\<^verbatim>\<open>Series.between(lo, hi, inclusive='both')\<close>: a NaN cell compares false.\<close>

definition between :: "real option list \<Rightarrow> real \<Rightarrow> real \<Rightarrow> bool list" where
  "between col lo hi =
     map (\<lambda>c. case c of None \<Rightarrow> False | Some v \<Rightarrow> lo \<le> v \<and> v \<le> hi) col"

text \<open>\<^verbatim>\<open>Series.isin(values)\<close> for a list of strings: a missing cell is in no such list.\<close>

definition isin :: "string option list \<Rightarrow> string list \<Rightarrow> bool list" where
  "isin col vals = map (\<lambda>c. case c of None \<Rightarrow> False | Some s \<Rightarrow> s \<in> set vals) col"

text \<open>\<^verbatim>\<open>mask &= other\<close> on two boolean Series over the same index.\<close>

definition mask_and :: "bool list \<Rightarrow> bool list \<Rightarrow> bool list" where
  "mask_and m n = map (\<lambda>(a, b). a \<and> b) (zip m n)"

text \<open>\<^verbatim>\<open>filtered[mask]\<close>: the entries whose mask entry is true, in order.\<close>

definition select :: "'a list \<Rightarrow> bool list \<Rightarrow> 'a list" where
  "select xs bs = map fst (filter snd (zip xs bs))"

definition boolean_index :: "frame \<Rightarrow> bool list \<Rightarrow> frame" where
  "boolean_index f bs =
     f\<lparr>rows := select (rows f) bs,
       popup_content := map_option (\<lambda>ps. select ps bs) (popup_content f)\<rparr>"

subsection \<open>\<^verbatim>\<open>Series.str.contains(pat, case=False, na=False)\<close>\<close>

text \<open>
  The call leaves \<^verbatim>\<open>regex\<close> at its default \<^verbatim>\<open>True\<close>: the owner name typed by the user is
  compiled as a regular expression with \<^verbatim>\<open>re.IGNORECASE\<close> and searched anywhere in the
  cell. For a pattern made of ordinary ASCII characters and of the dot, which matches
  any character but a newline, the search in an ASCII cell is \<open>re_search\<close> below: there
  the pattern always compiles and the case folding is that of the 26 letters. A pattern
  with another special character of Python's \<^verbatim>\<open>re\<close> or with a character outside ASCII, and
  the search in a cell with a character outside ASCII, are left to the library
  parameters \<open>re_valid\<close> and \<open>re_found\<close>.
\<close>

definition re_special :: "char list" where
  "re_special = CHR 0x5C # ''.^$*+?{}[]|()''"

definition ascii_char :: "char \<Rightarrow> bool" where
  "ascii_char c = (\<not> digit7 c)"

definition ascii_text :: "string \<Rightarrow> bool" where
  "ascii_text s = list_all ascii_char s"

definition re_modelled :: "string \<Rightarrow> bool" where
  "re_modelled pat =
     list_all (\<lambda>c. ascii_char c \<and> (c = CHR ''.'' \<or> c \<notin> set re_special)) pat"

text \<open>The case folding of \<^verbatim>\<open>re.IGNORECASE\<close> between two ASCII characters.\<close>

definition lower_ascii :: "char \<Rightarrow> char" where
  "lower_ascii c =
     (case map_of (zip ''ABCDEFGHIJKLMNOPQRSTUVWXYZ'' ''abcdefghijklmnopqrstuvwxyz'') c of
        Some l \<Rightarrow> l
      | None \<Rightarrow> c)"

definition re_atom :: "char \<Rightarrow> char \<Rightarrow> bool" where
  "re_atom p c = (if p = CHR ''.'' then c \<noteq> CHR 0x0A else lower_ascii p = lower_ascii c)"

fun re_match :: "string \<Rightarrow> string \<Rightarrow> bool" where
  "re_match [] s = True"
| "re_match (p # ps) [] = False"
| "re_match (p # ps) (c # cs) = (re_atom p c \<and> re_match ps cs)"

fun re_search :: "string \<Rightarrow> string \<Rightarrow> bool" where
  "re_search pat [] = re_match pat []"
| "re_search pat (c # cs) = (re_match pat (c # cs) \<or> re_search pat cs)"

text \<open>The compiled pattern as a test on cells, \<open>None\<close> when the pattern does not
  compile.\<close>

definition regex :: "libs \<Rightarrow> string \<Rightarrow> (string \<Rightarrow> bool) option" where
  "regex L pat =
     (if re_modelled pat
      then Some (\<lambda>s. if ascii_text s then re_search pat s else re_found L pat s)
      else if re_valid L pat then Some (re_found L pat)
      else None)"

definition str_contains :: "libs \<Rightarrow> string option list \<Rightarrow> string \<Rightarrow> failure + bool list" where
  "str_contains L col pat =
     (case regex L pat of
        None \<Rightarrow> Inl Re_error
      | Some found \<Rightarrow> Inr (map (\<lambda>c. case c of None \<Rightarrow> False | Some s \<Rightarrow> found s) col))"

section \<open>\<^verbatim>\<open>filter_parcels\<close>\<close>

subsection \<open>The attribute mask (lines 43 to 53)\<close>

definition and_owner :: "libs \<Rightarrow> frame \<Rightarrow> string option \<Rightarrow> bool list \<Rightarrow> failure + bool list" where
  "and_owner L filtered owner_name m =
     (case owner_name of
        None \<Rightarrow> Inr m
      | Some pat \<Rightarrow>
          if pat = [] then Inr m
          else (case str_contains L (map OWNERNME1 (rows filtered)) pat of
                  Inl e \<Rightarrow> Inl e
                | Inr c \<Rightarrow> Inr (mask_and m c)))"

definition and_isin :: "string option list \<Rightarrow> string list option \<Rightarrow> bool list \<Rightarrow> bool list" where
  "and_isin col vals m =
     (case vals of
        None \<Rightarrow> m
      | Some vs \<Rightarrow> if vs = [] then m else mask_and m (isin col vs))"

definition and_value :: "frame \<Rightarrow> real option \<Rightarrow> real option \<Rightarrow> bool list \<Rightarrow> bool list" where
  "and_value filtered estfmkvalu_min estfmkvalu_max m =
     (case estfmkvalu_min of
        None \<Rightarrow> m
      | Some lo \<Rightarrow>
          (case estfmkvalu_max of
             None \<Rightarrow> m
           | Some hi \<Rightarrow> mask_and m (between (map ESTFMKVALU (rows filtered)) lo hi)))"

definition attribute_mask ::
  "libs \<Rightarrow> frame \<Rightarrow> real \<Rightarrow> real \<Rightarrow> string option \<Rightarrow> string list option \<Rightarrow> string list option \<Rightarrow>
   string list option \<Rightarrow> real option \<Rightarrow> real option \<Rightarrow> failure + bool list" where
  "attribute_mask L filtered acres_min acres_max owner_name placenames zipcodes schooldists
     estfmkvalu_min estfmkvalu_max =
     (case and_owner L filtered owner_name
             (between (map GISACRES (rows filtered)) acres_min acres_max) of
        Inl e \<Rightarrow> Inl e
      | Inr m \<Rightarrow>
          Inr (and_value filtered estfmkvalu_min estfmkvalu_max
                (and_isin (map SCHOOLDIST (rows filtered)) schooldists
                  (and_isin (map ZIPCODE (rows filtered)) zipcodes
                    (and_isin (map PLACENAME (rows filtered)) placenames m)))))"

text \<open>Lines 41 to 55: the copy, the mask and \<^verbatim>\<open>filtered = filtered[mask]\<close>.\<close>

definition attribute_filter ::
  "libs \<Rightarrow> frame \<Rightarrow> real \<Rightarrow> real \<Rightarrow> string option \<Rightarrow> string list option \<Rightarrow> string list option \<Rightarrow>
   string list option \<Rightarrow> real option \<Rightarrow> real option \<Rightarrow> failure + frame" where
  "attribute_filter L gdf acres_min acres_max owner_name placenames zipcodes schooldists
     estfmkvalu_min estfmkvalu_max =
     (let filtered = gdf in
      case attribute_mask L filtered acres_min acres_max owner_name placenames zipcodes
             schooldists estfmkvalu_min estfmkvalu_max of
        Inl e \<Rightarrow> Inl e
      | Inr m \<Rightarrow> Inr (boolean_index filtered m))"

subsection \<open>The proximity stage (lines 57 to 69)\<close>

text \<open>\<^verbatim>\<open>if lat and lon and distance_miles\<close>: the three values when each is present and
  not zero.\<close>

definition proximity_args :: "real option \<Rightarrow> real option \<Rightarrow> real option \<Rightarrow> (real \<times> real \<times> real) option" where
  "proximity_args lat lon distance_miles =
     (case lat of
        None \<Rightarrow> None
      | Some la \<Rightarrow>
          if la = 0 then None
          else (case lon of
                  None \<Rightarrow> None
                | Some lo \<Rightarrow>
                    if lo = 0 then None
                    else (case distance_miles of
                            None \<Rightarrow> None
                          | Some d \<Rightarrow> if d = 0 then None else Some (la, lo, d))))"

definition in_region :: "real \<Rightarrow> real \<Rightarrow> bool" where
  "in_region la lo = (42 \<le> la \<and> la \<le> 44 \<and> - 89 \<le> lo \<and> lo \<le> - 87)"

definition to_crs :: "libs \<Rightarrow> frame \<Rightarrow> string \<Rightarrow> failure + frame" where
  "to_crs L f dst =
     (case crs f of
        None \<Rightarrow> Inl Naive_crs
      | Some src \<Rightarrow>
          Inr (f\<lparr>crs := Some dst,
                 rows := map (\<lambda>r. r\<lparr>geometry := transform L src dst (geometry r)\<rparr>) (rows f)\<rparr>))"

definition utm_crs :: string where
  "utm_crs = ''EPSG:32616''"

definition wgs84 :: string where
  "wgs84 = ''EPSG:4326''"

definition buffered_point :: "libs \<Rightarrow> real \<Rightarrow> real \<Rightarrow> real \<Rightarrow> geometry" where
  "buffered_point L la lo d =
     (let point = [(lo, la)];
          point_utm = transform L wgs84 utm_crs point;
          distance_meters = d * 1609.34
      in buffer L point_utm distance_meters)"

definition proximity :: "libs \<Rightarrow> frame \<Rightarrow> real \<Rightarrow> real \<Rightarrow> real \<Rightarrow> failure + frame" where
  "proximity L filtered la lo d =
     (case to_crs L filtered utm_crs of
        Inl e \<Rightarrow> Inl e
      | Inr projected \<Rightarrow>
          to_crs L
            (boolean_index projected
               (map (\<lambda>r. intersects L (geometry r) (buffered_point L la lo d)) (rows projected)))
            wgs84)"

subsection \<open>The popup text (lines 71 to 84)\<close>

definition fstr_text :: "string option \<Rightarrow> string" where
  "fstr_text c = (case c of None \<Rightarrow> ''None'' | Some s \<Rightarrow> s)"

definition fstr_num :: "libs \<Rightarrow> real option \<Rightarrow> string" where
  "fstr_num L c = (case c of None \<Rightarrow> ''nan'' | Some v \<Rightarrow> repr_float L v)"

definition popup_head :: "libs \<Rightarrow> row \<Rightarrow> string" where
  "popup_head L r =
     ''Owner: '' @ fstr_text (OWNERNME1 r) @ ''<br>'' @
     ''Acres: '' @ fstr_num L (GISACRES r) @ ''<br>'' @
     ''Market Value: '' @ fstr_num L (ESTFMKVALU r) @ ''<br>''"

definition popup_text :: "libs \<Rightarrow> row \<Rightarrow> string" where
  "popup_text L r =
     (case URL r of
        Some u \<Rightarrow>
          popup_head L r @ ''Tax Site: <a href='' @ [CHR 0x27] @ u @ [CHR 0x27] @
          '' target='' @ [CHR 0x27] @ ''_blank'' @ [CHR 0x27] @ ''>Link to Tax Site</a>''
      | None \<Rightarrow> popup_head L r @ ''Tax Site: No URL available'')"

definition assign_popup :: "libs \<Rightarrow> frame \<Rightarrow> frame" where
  "assign_popup L f = f\<lparr>popup_content := Some (map (popup_text L) (rows f))\<rparr>"

subsection \<open>The whole function\<close>

text \<open>\<^verbatim>\<open>gpd.GeoDataFrame()\<close>: no CRS, no rows, no columns.\<close>

definition GeoDataFrame :: frame where
  "GeoDataFrame = \<lparr>crs = None, rows = [], popup_content = None\<rparr>"

definition out_of_range_msg :: string where
  "out_of_range_msg = ''Coordinates out of valid range for Waukesha County.''"

text \<open>The result is the list of messages given to \<^verbatim>\<open>st.error\<close> and the returned frame.\<close>

definition filter_parcels ::
  "libs \<Rightarrow> frame \<Rightarrow> real \<Rightarrow> real \<Rightarrow> string option \<Rightarrow> string list option \<Rightarrow> string list option \<Rightarrow>
   string list option \<Rightarrow> real option \<Rightarrow> real option \<Rightarrow> real option \<Rightarrow> real option \<Rightarrow> real option \<Rightarrow>
   failure + (string list \<times> frame)" where
  "filter_parcels L gdf acres_min acres_max owner_name placenames zipcodes schooldists
     estfmkvalu_min estfmkvalu_max lat lon distance_miles =
     (case attribute_filter L gdf acres_min acres_max owner_name placenames zipcodes schooldists
             estfmkvalu_min estfmkvalu_max of
        Inl e \<Rightarrow> Inl e
      | Inr filtered \<Rightarrow>
          (case proximity_args lat lon distance_miles of
             None \<Rightarrow> Inr ([], assign_popup L filtered)
           | Some (la, lo, d) \<Rightarrow>
               if \<not> in_region la lo then Inr ([out_of_range_msg], GeoDataFrame)
               else (case proximity L filtered la lo d of
                       Inl e \<Rightarrow> Inl e
                     | Inr nearby \<Rightarrow> Inr ([], assign_popup L nearby))))"

subsection \<open>The same function on the object store\<close>

text \<open>
  Frames are objects: \<^verbatim>\<open>gdf\<close> and \<^verbatim>\<open>filtered\<close> are references. \<^verbatim>\<open>gdf.copy()\<close>,
  \<^verbatim>\<open>filtered[mask]\<close>, \<^verbatim>\<open>to_crs\<close> and \<^verbatim>\<open>gpd.GeoDataFrame()\<close> each make a new object;
  \<^verbatim>\<open>filtered['popup_content'] = ...\<close> writes into the object \<^verbatim>\<open>filtered\<close> refers to.
  The store maps references below \<open>next_ref\<close> to frames, and records the messages given to
  \<^verbatim>\<open>st.error\<close>. Boolean Series and the point are values: no reference to them
  outlives the statement that makes them.
\<close>

record store =
  cells :: "nat \<Rightarrow> frame"
  next_ref :: nat
  errors :: "string list"

definition alloc :: "frame \<Rightarrow> store \<Rightarrow> store \<times> nat" where
  "alloc f s = (s\<lparr>cells := (cells s)(next_ref s := f), next_ref := Suc (next_ref s)\<rparr>, next_ref s)"

definition set_popup :: "libs \<Rightarrow> nat \<Rightarrow> store \<Rightarrow> store" where
  "set_popup L r s = s\<lparr>cells := (cells s)(r := assign_popup L (cells s r))\<rparr>"

definition st_error :: "string \<Rightarrow> store \<Rightarrow> store" where
  "st_error msg s = s\<lparr>errors := errors s @ [msg]\<rparr>"

definition proximity_store :: "libs \<Rightarrow> store \<Rightarrow> nat \<Rightarrow> real \<Rightarrow> real \<Rightarrow> real \<Rightarrow> store \<times> (failure + nat)" where
  "proximity_store L s filtered la lo d =
     (case to_crs L (cells s filtered) utm_crs of
        Inl e \<Rightarrow> (s, Inl e)
      | Inr projected \<Rightarrow>
          (let (s1, filtered1) = alloc projected s;
               (s2, filtered2) =
                 alloc (boolean_index (cells s1 filtered1)
                          (map (\<lambda>r. intersects L (geometry r) (buffered_point L la lo d))
                             (rows (cells s1 filtered1)))) s1
           in case to_crs L (cells s2 filtered2) wgs84 of
                Inl e \<Rightarrow> (s2, Inl e)
              | Inr back \<Rightarrow> (let (s3, filtered3) = alloc back s2 in (s3, Inr filtered3))))"

definition filter_parcels_store ::
  "libs \<Rightarrow> store \<Rightarrow> nat \<Rightarrow> real \<Rightarrow> real \<Rightarrow> string option \<Rightarrow> string list option \<Rightarrow> string list option \<Rightarrow>
   string list option \<Rightarrow> real option \<Rightarrow> real option \<Rightarrow> real option \<Rightarrow> real option \<Rightarrow> real option \<Rightarrow>
   store \<times> (failure + nat)" where
  "filter_parcels_store L s gdf acres_min acres_max owner_name placenames zipcodes schooldists
     estfmkvalu_min estfmkvalu_max lat lon distance_miles =
     (let (s1, filtered) = alloc (cells s gdf) s
      in case attribute_mask L (cells s1 filtered) acres_min acres_max owner_name placenames
                zipcodes schooldists estfmkvalu_min estfmkvalu_max of
           Inl e \<Rightarrow> (s1, Inl e)
         | Inr m \<Rightarrow>
             (let (s2, filtered2) = alloc (boolean_index (cells s1 filtered) m) s1
              in case proximity_args lat lon distance_miles of
                   None \<Rightarrow> (set_popup L filtered2 s2, Inr filtered2)
                 | Some (la, lo, d) \<Rightarrow>
                     if \<not> in_region la lo
                     then (let (s3, empty) = alloc GeoDataFrame (st_error out_of_range_msg s2)
                           in (s3, Inr empty))
                     else (case proximity_store L s2 filtered2 la lo d of
                             (s3, Inl e) \<Rightarrow> (s3, Inl e)
                           | (s3, Inr nearby) \<Rightarrow> (set_popup L nearby s3, Inr nearby))))"

text \<open>\<open>extends s s'\<close>: every object of \<open>s\<close> is in \<open>s'\<close>, unchanged.\<close>

definition extends :: "store \<Rightarrow> store \<Rightarrow> bool" where
  "extends s s' =
     (next_ref s \<le> next_ref s' \<and> (\<forall>r. r < next_ref s \<longrightarrow> cells s' r = cells s r))"

section \<open>Rendering: \<^verbatim>\<open>generate_map_html\<close> and \<^verbatim>\<open>main\<close>\<close>

datatype map_bounds = Nan_bounds | Bounds "real \<times> real" "real \<times> real"
  \<comment> \<open>\<^verbatim>\<open>[[south, west], [north, east]]\<close>; \<open>Nan_bounds\<close> when the bounds are NaN\<close>

record folium_map =
  location :: "real \<times> real"
  zoom_start :: nat
  max_zoom :: nat
  fitted :: "map_bounds option"
  geojson :: "frame option"
  markers :: "((real \<times> real) \<times> string) list"

definition folium_Map :: folium_map where
  "folium_Map =
     \<lparr>location = (43.0111125, - 88.2275077), zoom_start = 10, max_zoom = 22,
      fitted = None, geojson = None, markers = []\<rparr>"

definition head :: "nat \<Rightarrow> frame \<Rightarrow> frame" where
  "head n f = f\<lparr>rows := take n (rows f), popup_content := map_option (take n) (popup_content f)\<rparr>"

text \<open>
  Lines 88 to 136. The map is returned in place of the name of the file it is saved to.
  The popup of the GeoJson layer and the markers read the column \<^verbatim>\<open>popup_content\<close>;
  a frame with rows and without the column fails.
\<close>

definition generate_map_html ::
  "libs \<Rightarrow> frame option \<Rightarrow> map_bounds option \<Rightarrow> failure + (folium_map \<times> bool)" where
  "generate_map_html L filtered_gdf bounds =
     (let m = folium_Map\<lparr>fitted := bounds\<rparr>
      in case filtered_gdf of
           None \<Rightarrow> Inr (m, False)
         | Some f \<Rightarrow>
             if rows f = [] then Inr (m, False)
             else (case popup_content f of
                     None \<Rightarrow> Inl Missing_popup
                   | Some ps \<Rightarrow>
                       (let (geojson_data, truncated) =
                              (if length (rows f) > 1000 then (head 1000 f, True) else (f, False));
                            m1 = m\<lparr>geojson := Some geojson_data\<rparr>;
                            m2 = (if length (rows f) < 200
                                  then m1\<lparr>markers :=
                                         map (\<lambda>(r, p). ((snd (centroid L (geometry r)),
                                                          fst (centroid L (geometry r))), p))
                                           (zip (rows f) ps)\<rparr>
                                  else m1)
                        in Inr (m2, truncated))))"

text \<open>\<^verbatim>\<open>total_bounds\<close>: minimum and maximum of the coordinates of all geometries;
  NaN (here \<open>None\<close>) when there is no coordinate.\<close>

definition coords :: "frame \<Rightarrow> (real \<times> real) list" where
  "coords f = concat (map geometry (rows f))"

definition total_bounds :: "frame \<Rightarrow> (real \<times> real \<times> real \<times> real) option" where
  "total_bounds f =
     (case coords f of
        [] \<Rightarrow> None
      | (x, y) # cs \<Rightarrow>
          Some (fold min (map fst cs) x, fold min (map snd cs) y,
                fold max (map fst cs) x, fold max (map snd cs) y))"

text \<open>Lines 230 to 237.\<close>

definition padded_bounds :: "frame \<Rightarrow> map_bounds" where
  "padded_bounds f =
     (case total_bounds f of
        None \<Rightarrow> Nan_bounds
      | Some (b0, b1, b2, b3) \<Rightarrow>
          (let buffer_factor = 0.1;
               width = b2 - b0;
               height = b3 - b1
           in Bounds (b1 - height * buffer_factor, b0 - width * buffer_factor)
                     (b3 + height * buffer_factor, b2 + width * buffer_factor)))"

record session =
  filtered_gdf :: "frame option"
  session_bounds :: "map_bounds option"
  map_file :: "folium_map option"
  map_truncated :: bool

datatype ui =
  Html folium_map
  | Warning string
  | Sidebar_showing nat
  | Heading string
  | Table "row list"

definition no_match_msg :: string where
  "no_match_msg = ''No parcels match your filters.''"

definition map_truncated_msg :: string where
  "map_truncated_msg = ''Map truncated: Only the first 1000 parcels are displayed.''"

definition table_truncated_msg :: string where
  "table_truncated_msg = ''Table truncated: Only the first 1000 parcels are shown.''"

text \<open>Lines 226 to 243: what \<^verbatim>\<open>main\<close> does with the value returned by the form.\<close>

definition main_apply :: "libs \<Rightarrow> session \<Rightarrow> frame option \<Rightarrow> failure + (session \<times> ui list)" where
  "main_apply L st result =
     (case result of
        None \<Rightarrow> Inr (st, [])
      | Some f \<Rightarrow>
          (let st1 = st\<lparr>filtered_gdf := Some f\<rparr>
           in if rows f \<noteq> []
              then (let st2 = st1\<lparr>session_bounds := Some (padded_bounds f)\<rparr>
                    in case generate_map_html L (Some f) (session_bounds st2) of
                         Inl e \<Rightarrow> Inl e
                       | Inr (file, truncated) \<Rightarrow>
                           Inr (st2\<lparr>map_file := Some file, map_truncated := truncated\<rparr>, []))
              else Inr (st1\<lparr>session_bounds := None, map_file := None, map_truncated := False\<rparr>,
                        [Warning no_match_msg])))"

text \<open>Lines 246 to 248.\<close>

definition main_refresh :: "libs \<Rightarrow> session \<Rightarrow> failure + session" where
  "main_refresh L st =
     (case filtered_gdf st of
        None \<Rightarrow> Inr st
      | Some f \<Rightarrow>
          if rows f = [] then Inr st
          else (case generate_map_html L (Some f) (session_bounds st) of
                  Inl e \<Rightarrow> Inl e
                | Inr (file, truncated) \<Rightarrow>
                    Inr (st\<lparr>map_file := Some file, map_truncated := truncated\<rparr>)))"

text \<open>Lines 251 to 260: the saved map, or the default map when there is none.\<close>

definition main_map :: "session \<Rightarrow> ui list" where
  "main_map st =
     (case map_file st of
        Some m \<Rightarrow> Html m # (if map_truncated st then [Warning map_truncated_msg] else [])
      | None \<Rightarrow> [Html folium_Map])"

text \<open>Lines 263 to 273: the count and the table. The table shows the attribute columns of
  the rows it is given.\<close>

definition main_table :: "session \<Rightarrow> ui list" where
  "main_table st =
     (case filtered_gdf st of
        None \<Rightarrow> []
      | Some f \<Rightarrow>
          Sidebar_showing (length (rows f)) #
          (if rows f \<noteq> []
           then Heading ''### Filtered Parcels'' #
                (if length (rows f) > 1000
                 then [Table (rows (head 1000 f)), Warning table_truncated_msg]
                 else [Table (rows f)])
           else []))"

definition main_page :: "libs \<Rightarrow> session \<Rightarrow> frame option \<Rightarrow> failure + (session \<times> ui list)" where
  "main_page L st result =
     (case main_apply L st result of
        Inl e \<Rightarrow> Inl e
      | Inr (st1, out1) \<Rightarrow>
          (case main_refresh L st1 of
             Inl e \<Rightarrow> Inl e
           | Inr st2 \<Rightarrow> Inr (st2, out1 @ main_map st2 @ main_table st2)))"

section \<open>The filter criteria and the clauses of the specification\<close>

text \<open>The arguments \<^verbatim>\<open>apply_filters_from_form\<close> passes to \<^verbatim>\<open>filter_parcels\<close> (lines 181
  to 184), as one value.\<close>

record criteria =
  acres_lo :: real
  acres_hi :: real
  owner :: "string option"
  places :: "string list option"
  zips :: "string list option"
  schools :: "string list option"
  value_lo :: "real option"
  value_hi :: "real option"
  q_lat :: "real option"
  q_lon :: "real option"
  q_miles :: "real option"

definition apply_criteria :: "libs \<Rightarrow> frame \<Rightarrow> criteria \<Rightarrow> failure + (string list \<times> frame)" where
  "apply_criteria L gdf c =
     filter_parcels L gdf (acres_lo c) (acres_hi c) (owner c) (places c) (zips c) (schools c)
       (value_lo c) (value_hi c) (q_lat c) (q_lon c) (q_miles c)"

text \<open>The clauses as the specification words them: a closed range, a membership test
  that an absent or empty list switches off, a market-value range that is active when
  both of its ends are given.\<close>

definition in_range :: "real \<Rightarrow> real \<Rightarrow> real option \<Rightarrow> bool" where
  "in_range lo hi c = (case c of None \<Rightarrow> False | Some v \<Rightarrow> lo \<le> v \<and> v \<le> hi)"

definition list_active :: "string list option \<Rightarrow> bool" where
  "list_active vals = (case vals of None \<Rightarrow> False | Some vs \<Rightarrow> vs \<noteq> [])"

definition member_clause :: "string list option \<Rightarrow> string option \<Rightarrow> bool" where
  "member_clause vals c =
     (\<not> list_active vals \<or>
      (case (vals, c) of (Some vs, Some s) \<Rightarrow> s \<in> set vs | _ \<Rightarrow> False))"

definition value_active :: "real option \<Rightarrow> real option \<Rightarrow> bool" where
  "value_active lo hi = (lo \<noteq> None \<and> hi \<noteq> None)"

definition value_clause :: "real option \<Rightarrow> real option \<Rightarrow> real option \<Rightarrow> bool" where
  "value_clause lo hi c =
     (\<not> value_active lo hi \<or>
      (case (lo, hi) of (Some l, Some h) \<Rightarrow> in_range l h c | _ \<Rightarrow> False))"

definition owner_active :: "string option \<Rightarrow> bool" where
  "owner_active q = (case q of None \<Rightarrow> False | Some pat \<Rightarrow> pat \<noteq> [])"

text \<open>What the mask of the source computes for one row. Its owner clause is the search
  of the compiled query, as line 45 does it; the owner clause of the specification is
  \<open>spec_owner_clause\<close> below.\<close>

definition owner_clause :: "libs \<Rightarrow> string option \<Rightarrow> string option \<Rightarrow> bool" where
  "owner_clause L q c =
     (\<not> owner_active q \<or>
      (case (q, c) of
         (Some pat, Some s) \<Rightarrow> (case regex L pat of None \<Rightarrow> False | Some found \<Rightarrow> found s)
       | _ \<Rightarrow> False))"

definition satisfies ::
  "libs \<Rightarrow> real \<Rightarrow> real \<Rightarrow> string option \<Rightarrow> string list option \<Rightarrow> string list option \<Rightarrow>
   string list option \<Rightarrow> real option \<Rightarrow> real option \<Rightarrow> row \<Rightarrow> bool" where
  "satisfies L acres_min acres_max owner_name placenames zipcodes schooldists
     estfmkvalu_min estfmkvalu_max r =
     (in_range acres_min acres_max (GISACRES r) \<and>
      owner_clause L owner_name (OWNERNME1 r) \<and>
      member_clause placenames (PLACENAME r) \<and>
      member_clause zipcodes (ZIPCODE r) \<and>
      member_clause schooldists (SCHOOLDIST r) \<and>
      value_clause estfmkvalu_min estfmkvalu_max (ESTFMKVALU r))"

text \<open>The owner queries on which the filter does not fail: none, the empty one, and
  those that compile.\<close>

definition owner_compiles :: "libs \<Rightarrow> string option \<Rightarrow> bool" where
  "owner_compiles L q =
     (case q of None \<Rightarrow> True | Some pat \<Rightarrow> pat = [] \<or> regex L pat \<noteq> None)"

text \<open>The ASCII queries without any special character.\<close>

definition re_literal :: "string \<Rightarrow> bool" where
  "re_literal pat = list_all (\<lambda>c. ascii_char c \<and> c \<notin> set re_special) pat"

text \<open>The owner clause and the conjunction of clauses as the specification words them:
  when a query is given, its containment in the owner name as a substring, letters
  compared without regard to case, and a row without owner name excluded.\<close>

definition ci_substring :: "string \<Rightarrow> string \<Rightarrow> bool" where
  "ci_substring q s = sublist (map lower_ascii q) (map lower_ascii s)"

definition spec_owner_clause :: "string option \<Rightarrow> string option \<Rightarrow> bool" where
  "spec_owner_clause q c =
     (\<not> owner_active q \<or>
      (case (q, c) of (Some pat, Some s) \<Rightarrow> ci_substring pat s | _ \<Rightarrow> False))"

definition spec_satisfies ::
  "real \<Rightarrow> real \<Rightarrow> string option \<Rightarrow> string list option \<Rightarrow> string list option \<Rightarrow>
   string list option \<Rightarrow> real option \<Rightarrow> real option \<Rightarrow> row \<Rightarrow> bool" where
  "spec_satisfies acres_min acres_max owner_name placenames zipcodes schooldists
     estfmkvalu_min estfmkvalu_max r =
     (in_range acres_min acres_max (GISACRES r) \<and>
      spec_owner_clause owner_name (OWNERNME1 r) \<and>
      member_clause placenames (PLACENAME r) \<and>
      member_clause zipcodes (ZIPCODE r) \<and>
      member_clause schooldists (SCHOOLDIST r) \<and>
      value_clause estfmkvalu_min estfmkvalu_max (ESTFMKVALU r))"

text \<open>The owner queries and the datasets on which the search is the one written out
  above: an ASCII query without special character, or none, and ASCII owner names.\<close>

definition owner_literal :: "string option \<Rightarrow> bool" where
  "owner_literal q = (case q of None \<Rightarrow> True | Some pat \<Rightarrow> re_literal pat)"

definition ascii_owners :: "frame \<Rightarrow> bool" where
  "ascii_owners f =
     list_all (\<lambda>r. case OWNERNME1 r of None \<Rightarrow> True | Some s \<Rightarrow> ascii_text s) (rows f)"

definition proximity_active :: "criteria \<Rightarrow> bool" where
  "proximity_active c = (proximity_args (q_lat c) (q_lon c) (q_miles c) \<noteq> None)"

text \<open>\<open>adds_restriction c1 c2\<close>: \<open>c2\<close> is \<open>c1\<close> with one clause switched on that was off in
  \<open>c1\<close>, and nothing else changed.\<close>

definition adds_restriction :: "criteria \<Rightarrow> criteria \<Rightarrow> bool" where
  "adds_restriction c1 c2 =
     ((\<not> owner_active (owner c1) \<and> owner_active (owner c2) \<and> c2 = c1\<lparr>owner := owner c2\<rparr>) \<or>
      (\<not> list_active (places c1) \<and> list_active (places c2) \<and> c2 = c1\<lparr>places := places c2\<rparr>) \<or>
      (\<not> list_active (zips c1) \<and> list_active (zips c2) \<and> c2 = c1\<lparr>zips := zips c2\<rparr>) \<or>
      (\<not> list_active (schools c1) \<and> list_active (schools c2) \<and>
         c2 = c1\<lparr>schools := schools c2\<rparr>) \<or>
      (\<not> value_active (value_lo c1) (value_hi c1) \<and> value_active (value_lo c2) (value_hi c2) \<and>
         c2 = c1\<lparr>value_lo := value_lo c2, value_hi := value_hi c2\<rparr>) \<or>
      (\<not> proximity_active c1 \<and> proximity_active c2 \<and>
         c2 = c1\<lparr>q_lat := q_lat c2, q_lon := q_lon c2, q_miles := q_miles c2\<rparr>))"

text \<open>What the monotonicity proof needs of a pair of criteria: the same acreage range,
  every row that passes the clauses of \<open>c2\<close> passes those of \<open>c1\<close>, and the proximity
  query of \<open>c2\<close> is that of \<open>c1\<close> unless \<open>c1\<close> has none.\<close>

definition refines :: "libs \<Rightarrow> criteria \<Rightarrow> criteria \<Rightarrow> bool" where
  "refines L c1 c2 =
     (acres_lo c2 = acres_lo c1 \<and> acres_hi c2 = acres_hi c1 \<and>
      (\<forall>r. satisfies L (acres_lo c2) (acres_hi c2) (owner c2) (places c2) (zips c2) (schools c2)
             (value_lo c2) (value_hi c2) r \<longrightarrow>
           satisfies L (acres_lo c1) (acres_hi c1) (owner c1) (places c1) (zips c1) (schools c1)
             (value_lo c1) (value_hi c1) r) \<and>
      (proximity_args (q_lat c1) (q_lon c1) (q_miles c1) = None \<or>
       proximity_args (q_lat c2) (q_lon c2) (q_miles c2) =
         proximity_args (q_lat c1) (q_lon c1) (q_miles c1)) \<and>
      (proximity_active c2 = proximity_active c1 \<longrightarrow>
       proximity_args (q_lat c2) (q_lon c2) (q_miles c2) =
         proximity_args (q_lat c1) (q_lon c1) (q_miles c1)))"

text \<open>What the proximity stage does to a row of a frame in CRS \<open>src\<close>: the test it is
  kept by, and the row it is returned as.\<close>

definition near :: "libs \<Rightarrow> string \<Rightarrow> real \<Rightarrow> real \<Rightarrow> real \<Rightarrow> row \<Rightarrow> bool" where
  "near L src la lo d r =
     intersects L (transform L src utm_crs (geometry r)) (buffered_point L la lo d)"

definition reproject :: "libs \<Rightarrow> string \<Rightarrow> row \<Rightarrow> row" where
  "reproject L src r =
     r\<lparr>geometry := transform L utm_crs wgs84 (transform L src utm_crs (geometry r))\<rparr>"

text \<open>The popup texts of a frame, row by row (none when the column is absent), and what
  the specification asks of the text \<open>p\<close> derived for the row \<open>r\<close>: it embeds owner, acreage
  and market value, and it ends with the link to the URL of the row, or with the marker
  when the row has none.\<close>

definition popups :: "frame \<Rightarrow> string list" where
  "popups f = (case popup_content f of None \<Rightarrow> [] | Some ps \<Rightarrow> ps)"

definition presents :: "libs \<Rightarrow> row \<Rightarrow> string \<Rightarrow> bool" where
  "presents L r p =
     (sublist (''Owner: '' @ fstr_text (OWNERNME1 r)) p \<and>
      sublist (''Acres: '' @ fstr_num L (GISACRES r)) p \<and>
      sublist (''Market Value: '' @ fstr_num L (ESTFMKVALU r)) p \<and>
      (case URL r of
         Some u \<Rightarrow>
           suffix (''Tax Site: <a href='' @ [CHR 0x27] @ u @ [CHR 0x27] @ '' target='' @
                   [CHR 0x27] @ ''_blank'' @ [CHR 0x27] @ ''>Link to Tax Site</a>'') p
       | None \<Rightarrow> suffix ''Tax Site: No URL available'' p))"

text \<open>What a page shows: its maps, its tables, the counts in the sidebar, its warnings,
  and the rows of the GeoJson layer of a map.\<close>

definition html_maps :: "ui list \<Rightarrow> folium_map list" where
  "html_maps out = concat (map (\<lambda>u. case u of Html m \<Rightarrow> [m] | _ \<Rightarrow> []) out)"

definition tables :: "ui list \<Rightarrow> row list list" where
  "tables out = concat (map (\<lambda>u. case u of Table rs \<Rightarrow> [rs] | _ \<Rightarrow> []) out)"

definition counts :: "ui list \<Rightarrow> nat list" where
  "counts out = concat (map (\<lambda>u. case u of Sidebar_showing n \<Rightarrow> [n] | _ \<Rightarrow> []) out)"

definition warnings :: "ui list \<Rightarrow> string list" where
  "warnings out = concat (map (\<lambda>u. case u of Warning w \<Rightarrow> [w] | _ \<Rightarrow> []) out)"

definition rendered_rows :: "folium_map \<Rightarrow> row list" where
  "rendered_rows m = (case geojson m of None \<Rightarrow> [] | Some g \<Rightarrow> rows g)"

text \<open>The bounding box as the specification words it: \<open>encloses\<close>, every coordinate lies in
  the box; \<open>touched\<close>, each side of the box passes through a coordinate, so no smaller box
  encloses them; \<open>pad\<close>, the box grown by a tenth of its width to the west and to the east
  and by a tenth of its height to the south and to the north, in the order
  \<^verbatim>\<open>[[south, west], [north, east]]\<close>.\<close>

definition encloses :: "real \<times> real \<times> real \<times> real \<Rightarrow> (real \<times> real) list \<Rightarrow> bool" where
  "encloses b cs =
     (case b of (minx, miny, maxx, maxy) \<Rightarrow>
        list_all (\<lambda>(x, y). minx \<le> x \<and> x \<le> maxx \<and> miny \<le> y \<and> y \<le> maxy) cs)"

definition touched :: "real \<times> real \<times> real \<times> real \<Rightarrow> (real \<times> real) list \<Rightarrow> bool" where
  "touched b cs =
     (case b of (minx, miny, maxx, maxy) \<Rightarrow>
        minx \<in> fst ` set cs \<and> maxx \<in> fst ` set cs \<and> miny \<in> snd ` set cs \<and> maxy \<in> snd ` set cs)"

definition pad :: "real \<times> real \<times> real \<times> real \<Rightarrow> map_bounds" where
  "pad b =
     (case b of (minx, miny, maxx, maxy) \<Rightarrow>
        Bounds (miny - (maxy - miny) / 10, minx - (maxx - minx) / 10)
               (maxy + (maxy - miny) / 10, maxx + (maxx - minx) / 10))"

section \<open>Example data\<close>

text \<open>A library instance for evaluating the definitions on examples: the reprojection
  to the projected CRS shifts every coordinate one unit east and the one back shifts it
  one unit west, the buffer of a point is the square of the given half-width around it
  (empty when the width is not positive), and a geometry intersects a buffer when one of
  its coordinates lies in the bounding square of the buffer.\<close>

definition demo_transform :: "string \<Rightarrow> string \<Rightarrow> geometry \<Rightarrow> geometry" where
  "demo_transform src dst g =
     (if src = dst then g
      else if dst = ''EPSG:32616'' then map (\<lambda>(x, y). (x + 1, y)) g
      else map (\<lambda>(x, y). (x - 1, y)) g)"

definition demo_buffer :: "geometry \<Rightarrow> real \<Rightarrow> geometry" where
  "demo_buffer g r =
     (case g of
        [] \<Rightarrow> []
      | (x, y) # _ \<Rightarrow> if r \<le> 0 then [] else [(x - r, y - r), (x + r, y + r)])"

definition demo_intersects :: "geometry \<Rightarrow> geometry \<Rightarrow> bool" where
  "demo_intersects g h =
     (case h of
        [(x0, y0), (x1, y1)] \<Rightarrow> list_ex (\<lambda>(x, y). x0 \<le> x \<and> x \<le> x1 \<and> y0 \<le> y \<and> y \<le> y1) g
      | _ \<Rightarrow> False)"

definition demo_libs :: libs where
  "demo_libs =
     \<lparr>transform = demo_transform, buffer = demo_buffer, intersects = demo_intersects,
      centroid = (\<lambda>g. case g of [] \<Rightarrow> (0, 0) | p # _ \<Rightarrow> p),
      repr_float = (\<lambda>x. if x = 1 then ''1.0'' else if x = 5 then ''5.0'' else ''250000.0''),
      re_valid = (\<lambda>pat. False), re_found = (\<lambda>pat s. False)\<rparr>"

definition smith :: row where
  "smith =
     \<lparr>idx = 0, OWNERNME1 = Some ''SMITH JOHN'', PLACENAME = Some ''CITY OF WAUKESHA'',
      ZIPCODE = Some ''53186'', SCHOOLDIST = Some ''WAUKESHA'', ESTFMKVALU = Some 250000,
      PSTLADRESS = Some ''1 MAIN ST'', SITEADRESS = Some ''1 MAIN ST'', GISACRES = Some 1,
      URL = None, geometry = [(- 88.2, 43), (- 88.1, 43), (- 88.1, 43.1)]\<rparr>"

definition jones :: row where
  "jones =
     \<lparr>idx = 1, OWNERNME1 = Some ''JONES MARY'', PLACENAME = Some ''VILLAGE OF SUSSEX'',
      ZIPCODE = Some ''53089'', SCHOOLDIST = Some ''HAMILTON'', ESTFMKVALU = Some 400000,
      PSTLADRESS = Some ''2 OAK AVE'', SITEADRESS = Some ''2 OAK AVE'', GISACRES = Some 5,
      URL = Some ''http://tax.example/2'',
      geometry = [(- 88.3, 43.1), (- 88.25, 43.1), (- 88.25, 43.2)]\<rparr>"

definition baker :: row where
  "baker =
     \<lparr>idx = 2, OWNERNME1 = None, PLACENAME = Some ''CITY OF WAUKESHA'',
      ZIPCODE = Some ''53186'', SCHOOLDIST = None, ESTFMKVALU = None,
      PSTLADRESS = None, SITEADRESS = None, GISACRES = Some 7.5,
      URL = None, geometry = [(- 88, 42.9), (- 87.9, 42.9), (- 87.9, 43)]\<rparr>"

definition demo_gdf :: frame where
  "demo_gdf = \<lparr>crs = Some ''EPSG:4326'', rows = [smith, jones, baker], popup_content = None\<rparr>"

definition no_restriction :: criteria where
  "no_restriction =
     \<lparr>acres_lo = 0, acres_hi = 1000, owner = None, places = None, zips = None, schools = None,
      value_lo = None, value_hi = None, q_lat = None, q_lon = None, q_miles = None\<rparr>"

definition three_miles :: criteria where
  "three_miles = no_restriction\<lparr>q_lat := Some 43, q_lon := Some (- 88), q_miles := Some 3\<rparr>"

definition demo_store :: store where
  "demo_store = \<lparr>cells = (\<lambda>r. demo_gdf), next_ref = 1, errors = []\<rparr>"

definition smith_only :: frame where
  "smith_only = \<lparr>crs = Some ''EPSG:4326'', rows = [smith], popup_content = None\<rparr>"

definition smith_popup :: string where
  "smith_popup =
     ''Owner: SMITH JOHN<br>Acres: 1.0<br>Market Value: 250000.0<br>Tax Site: No URL available''"

definition thousand_and_one :: frame where
  "thousand_and_one =
     \<lparr>crs = Some ''EPSG:4326'', rows = replicate 1001 smith,
      popup_content = Some (replicate 1001 smith_popup)\<rparr>"

definition demo_result :: frame where
  "demo_result = assign_popup demo_libs demo_gdf"

definition fresh_session :: session where
  "fresh_session =
     \<lparr>filtered_gdf = None, session_bounds = None, map_file = None, map_truncated = False\<rparr>"

section \<open>Basic facts about the pandas operations\<close>

lemma select_map: "select xs (map P xs) = filter P xs"
  by (induction xs) (simp_all add: select_def)

lemma mask_and_map: "mask_and (map P xs) (map Q xs) = map (\<lambda>x. P x \<and> Q x) xs"
  by (induction xs) (simp_all add: mask_and_def)

lemma and_owner_map:
  assumes "owner_compiles L q"
  shows "and_owner L f q (map P (rows f)) =
           Inr (map (\<lambda>r. P r \<and> owner_clause L q (OWNERNME1 r)) (rows f))"
proof (cases "owner_active q")
  case False
  then show ?thesis
    by (simp add: and_owner_def owner_clause_def owner_active_def split: option.splits)
next
  case True
  then obtain pat where pat: "q = Some pat" "pat \<noteq> []"
    by (auto simp: owner_active_def split: option.splits)
  with assms obtain found where found: "regex L pat = Some found"
    by (auto simp: owner_compiles_def)
  have "\<And>c. (case c of None \<Rightarrow> False | Some s \<Rightarrow> found s) = owner_clause L q c"
    using pat found
    by (simp add: owner_clause_def owner_active_def split: option.splits)
  then have "str_contains L (map OWNERNME1 (rows f)) pat =
          Inr (map (\<lambda>r. owner_clause L q (OWNERNME1 r)) (rows f))"
    using found by (simp add: str_contains_def comp_def)
  with pat show ?thesis by (simp add: and_owner_def mask_and_map)
qed

lemma and_isin_map:
  "and_isin (map g xs) vals (map P xs) = map (\<lambda>r. P r \<and> member_clause vals (g r)) xs"
proof (cases "list_active vals")
  case False
  then show ?thesis
    by (simp add: and_isin_def member_clause_def list_active_def split: option.splits)
next
  case True
  then obtain vs where vs: "vals = Some vs" "vs \<noteq> []"
    by (auto simp: list_active_def split: option.splits)
  have "isin (map g xs) vs = map (\<lambda>r. member_clause vals (g r)) xs"
    using vs by (simp add: isin_def member_clause_def list_active_def comp_def)
  with vs show ?thesis by (simp add: and_isin_def mask_and_map)
qed

lemma and_value_map:
  "and_value f lo hi (map P (rows f)) = map (\<lambda>r. P r \<and> value_clause lo hi (ESTFMKVALU r)) (rows f)"
proof (cases "value_active lo hi")
  case False
  then show ?thesis
    by (auto simp: and_value_def value_clause_def value_active_def split: option.splits)
next
  case True
  then obtain l h where lh: "lo = Some l" "hi = Some h"
    by (auto simp: value_active_def)
  have "between (map ESTFMKVALU (rows f)) l h = map (\<lambda>r. value_clause lo hi (ESTFMKVALU r)) (rows f)"
    using lh by (simp add: between_def value_clause_def value_active_def in_range_def comp_def)
  with lh show ?thesis by (simp add: and_value_def mask_and_map)
qed

lemma between_map: "between (map g xs) lo hi = map (\<lambda>r. in_range lo hi (g r)) xs"
  by (simp add: between_def in_range_def comp_def)

lemma attribute_mask_satisfies:
  "owner_compiles L q \<Longrightarrow>
   attribute_mask L f amin amax q pl zp sd vlo vhi =
     Inr (map (satisfies L amin amax q pl zp sd vlo vhi) (rows f))"
  unfolding attribute_mask_def
  by (simp add: between_map and_owner_map and_isin_map and_value_map satisfies_def)

lemmas demo_rows = smith_def jones_def baker_def

lemmas clause_defs =
  satisfies_def in_range_def owner_clause_def owner_active_def member_clause_def
  list_active_def value_clause_def value_active_def regex_def re_modelled_def re_special_def
  re_atom_def lower_ascii_def ascii_text_def ascii_char_def

section \<open>The search of a query without special characters\<close>

text \<open>On an ASCII query without special characters the search written out above is
  containment as a substring, letters compared without regard to case.\<close>

lemma re_match_literal:
  "re_literal pat \<Longrightarrow> re_match pat s = prefix (map lower_ascii pat) (map lower_ascii s)"
proof (induction pat s rule: re_match.induct)
  case (1 s)
  then show ?case by simp
next
  case (2 p ps)
  then show ?case by simp
next
  case (3 p ps c cs)
  from "3.prems" have p: "p \<noteq> CHR ''.''" and ps: "re_literal ps"
    by (auto simp: re_literal_def re_special_def)
  from "3.IH" [OF ps] p show ?case by (simp add: re_atom_def)
qed

lemma re_search_literal:
  "re_literal pat \<Longrightarrow> re_search pat s = ci_substring pat s"
proof (induction s)
  case Nil
  then show ?case by (cases pat) (simp_all add: ci_substring_def)
next
  case (Cons c cs)
  then show ?case
    by (simp add: ci_substring_def re_match_literal sublist_Cons_right)
qed

section \<open>The predicate filter\<close>

text \<open>
  For an owner query that is absent, empty or made of ASCII characters none of which is
  special, on a dataset with ASCII owner names, lines 41 to 55 of \<^verbatim>\<open>filter_parcels\<close>
  return the frame whose rows are exactly the rows of the dataset that satisfy the
  conjunction of the clauses of the specification, in their order, with the CRS of the
  dataset. A row whose acreage lies outside the range is dropped, and a row whose acreage
  equals one end of a range with \<open>acres_min \<le> acres_max\<close> is kept exactly when it passes
  the other clauses.
\<close>

lemma regex_literal:
  assumes "re_literal pat"
  shows "regex L pat = Some (\<lambda>s. if ascii_text s then re_search pat s else re_found L pat s)"
proof -
  from assms have "re_modelled pat"
    by (auto simp: re_modelled_def re_literal_def list_all_iff)
  then show ?thesis by (simp add: regex_def)
qed

lemma owner_literal_compiles: "owner_literal q \<Longrightarrow> owner_compiles L q"
  by (auto simp: owner_literal_def owner_compiles_def regex_literal split: option.splits)

lemma owner_clause_spec:
  assumes "owner_literal q" and "case c of None \<Rightarrow> True | Some s \<Rightarrow> ascii_text s"
  shows "owner_clause L q c = spec_owner_clause q c"
proof (cases "owner_active q")
  case False
  then show ?thesis by (simp add: owner_clause_def spec_owner_clause_def)
next
  case True
  then obtain pat where pat: "q = Some pat" "pat \<noteq> []"
    by (auto simp: owner_active_def split: option.splits)
  with assms(1) have lit: "re_literal pat" by (simp add: owner_literal_def)
  show ?thesis
  proof (cases c)
    case None
    with pat show ?thesis by (simp add: owner_clause_def spec_owner_clause_def)
  next
    case (Some s)
    with assms(2) have "ascii_text s" by simp
    with pat Some lit show ?thesis
      by (simp add: owner_clause_def spec_owner_clause_def owner_active_def regex_literal
          re_search_literal)
  qed
qed

lemma predicate_filter_literal:
  assumes "owner_literal owner_name" and "ascii_owners gdf"
  shows "\<exists>f. attribute_filter L gdf acres_min acres_max owner_name placenames zipcodes schooldists
                estfmkvalu_min estfmkvalu_max = Inr f \<and>
             crs f = crs gdf \<and>
             rows f = filter (spec_satisfies acres_min acres_max owner_name placenames zipcodes
                                 schooldists estfmkvalu_min estfmkvalu_max) (rows gdf) \<and>
             subseq (rows f) (rows gdf) \<and>
             (\<forall>r \<in> set (rows gdf). \<forall>a. GISACRES r = Some a \<and> (a < acres_min \<or> acres_max < a)
                  \<longrightarrow> r \<notin> set (rows f)) \<and>
             (\<forall>r \<in> set (rows gdf).
                  (GISACRES r = Some acres_min \<or> GISACRES r = Some acres_max) \<and>
                  acres_min \<le> acres_max \<longrightarrow>
                  (r \<in> set (rows f) \<longleftrightarrow>
                     spec_owner_clause owner_name (OWNERNME1 r) \<and>
                     member_clause placenames (PLACENAME r) \<and>
                     member_clause zipcodes (ZIPCODE r) \<and>
                     member_clause schooldists (SCHOOLDIST r) \<and>
                     value_clause estfmkvalu_min estfmkvalu_max (ESTFMKVALU r)))"
proof -
  let ?P = "satisfies L acres_min acres_max owner_name placenames zipcodes schooldists
              estfmkvalu_min estfmkvalu_max"
  let ?S = "spec_satisfies acres_min acres_max owner_name placenames zipcodes schooldists
              estfmkvalu_min estfmkvalu_max"
  let ?f = "boolean_index gdf (map ?P (rows gdf))"
  have run: "attribute_filter L gdf acres_min acres_max owner_name placenames zipcodes schooldists
               estfmkvalu_min estfmkvalu_max = Inr ?f"
    using owner_literal_compiles [OF assms(1)]
    by (simp add: attribute_filter_def attribute_mask_satisfies)
  have same: "?P r = ?S r" if "r \<in> set (rows gdf)" for r
  proof -
    from that assms(2) have "case OWNERNME1 r of None \<Rightarrow> True | Some s \<Rightarrow> ascii_text s"
      by (auto simp: ascii_owners_def list_all_iff)
    from owner_clause_spec [OF assms(1) this] show ?thesis
      by (simp add: satisfies_def spec_satisfies_def)
  qed
  have "rows ?f = filter ?P (rows gdf)"
    by (simp add: boolean_index_def select_map)
  also have "\<dots> = filter ?S (rows gdf)"
    using same by (auto intro: filter_cong)
  finally have rws: "rows ?f = filter ?S (rows gdf)" .
  have c: "crs ?f = crs gdf"
    by (simp add: boolean_index_def)
  have out: "\<forall>r \<in> set (rows gdf). \<forall>a. GISACRES r = Some a \<and> (a < acres_min \<or> acres_max < a)
                  \<longrightarrow> r \<notin> set (rows ?f)"
    unfolding rws by (auto simp: spec_satisfies_def in_range_def)
  have edge: "\<forall>r \<in> set (rows gdf).
                  (GISACRES r = Some acres_min \<or> GISACRES r = Some acres_max) \<and>
                  acres_min \<le> acres_max \<longrightarrow>
                  (r \<in> set (rows ?f) \<longleftrightarrow>
                     spec_owner_clause owner_name (OWNERNME1 r) \<and>
                     member_clause placenames (PLACENAME r) \<and>
                     member_clause zipcodes (ZIPCODE r) \<and>
                     member_clause schooldists (SCHOOLDIST r) \<and>
                     value_clause estfmkvalu_min estfmkvalu_max (ESTFMKVALU r))"
    unfolding rws by (auto simp: spec_satisfies_def in_range_def)
  have sub: "subseq (rows ?f) (rows gdf)"
    unfolding rws by simp
  from run c rws sub out edge show ?thesis by blast
qed

text \<open>
  Claim C1 asks, for every choice of criteria, that the predicate filter return exactly
  the rows that satisfy the conjunction of the active clauses. With the acreage range 0
  to 1000 and the owner query \<^verbatim>\<open>.\<close>, no row of the example dataset satisfies the
  conjunction of the clauses of the specification, since no owner name contains a dot;
  the filter returns two of its three rows, whatever the library: line 45 searches the
  query as a regular expression.
\<close>

theorem predicate_filter_keeps_rows_without_the_query:
  "owner_active (Some ''.'') \<and>
   \<not> list_ex (spec_satisfies 0 1000 (Some ''.'') None None None None None) (rows demo_gdf) \<and>
   (\<forall>L. \<exists>f. attribute_filter L demo_gdf 0 1000 (Some ''.'') None None None None None = Inr f \<and>
             rows f = [smith, jones])"
proof -
  have a: "owner_active (Some ''.'')" by (simp add: owner_active_def)
  have n: "\<not> spec_satisfies 0 1000 (Some ''.'') None None None None None r"
    if "r \<in> {smith, jones, baker}" for r
    using that
    by (auto simp: spec_satisfies_def spec_owner_clause_def owner_active_def ci_substring_def
        lower_ascii_def sublist_code prefix_code demo_rows)
  then have none: "\<not> list_ex (spec_satisfies 0 1000 (Some ''.'') None None None None None)
                      (rows demo_gdf)"
    by (simp add: demo_gdf_def)
  have run: "\<exists>f. attribute_filter L demo_gdf 0 1000 (Some ''.'') None None None None None = Inr f \<and>
                 rows f = [smith, jones]" for L
  proof -
    let ?P = "satisfies L 0 1000 (Some ''.'') None None None None None"
    have m: "owner_compiles L (Some ''.'')"
      by (simp add: owner_compiles_def regex_def re_modelled_def ascii_char_def)
    have s1: "?P smith" by (simp add: smith_def clause_defs)
    have s2: "?P jones" by (simp add: jones_def clause_defs)
    have s3: "\<not> ?P baker" by (simp add: baker_def clause_defs)
    have "attribute_filter L demo_gdf 0 1000 (Some ''.'') None None None None None =
            Inr (boolean_index demo_gdf (map ?P (rows demo_gdf)))"
      using m by (simp add: attribute_filter_def attribute_mask_satisfies)
    moreover have "rows (boolean_index demo_gdf (map ?P (rows demo_gdf))) = [smith, jones]"
      by (simp add: boolean_index_def select_def demo_gdf_def s1 s2 s3)
    ultimately show ?thesis by simp
  qed
  from a none run show ?thesis by blast
qed

section \<open>The owner query as a regular expression\<close>

text \<open>
  Claim C6 asks that the owner clause keep exactly the rows whose owner name contains the
  query as a substring. The query \<^verbatim>\<open>.\<close> is no substring of \<^verbatim>\<open>SMITH JOHN\<close> nor of
  \<^verbatim>\<open>JONES MARY\<close>, and the filter keeps both rows: the query is matched as a regular
  expression, in which the dot stands for any character. The row without owner name is
  dropped.
\<close>

theorem owner_query_is_a_regular_expression:
  "\<not> ci_substring ''.'' ''SMITH JOHN'' \<and> \<not> ci_substring ''.'' ''JONES MARY'' \<and>
   (\<exists>f. attribute_filter demo_libs demo_gdf 0 1000 (Some ''.'') None None None None None = Inr f \<and>
        rows f = [smith, jones])"
proof -
  let ?P = "satisfies demo_libs 0 1000 (Some ''.'') None None None None None"
  have m: "owner_compiles demo_libs (Some ''.'')"
    by (simp add: owner_compiles_def regex_def re_modelled_def ascii_char_def)
  have s1: "?P smith" by (simp add: smith_def clause_defs)
  have s2: "?P jones" by (simp add: jones_def clause_defs)
  have s3: "\<not> ?P baker" by (simp add: baker_def clause_defs)
  have n1: "\<not> ci_substring ''.'' ''SMITH JOHN''"
    by (simp add: ci_substring_def lower_ascii_def sublist_code prefix_code)
  have n2: "\<not> ci_substring ''.'' ''JONES MARY''"
    by (simp add: ci_substring_def lower_ascii_def sublist_code prefix_code)
  have "attribute_filter demo_libs demo_gdf 0 1000 (Some ''.'') None None None None None =
          Inr (boolean_index demo_gdf (map ?P (rows demo_gdf)))"
    using m by (simp add: attribute_filter_def attribute_mask_satisfies)
  moreover have "rows (boolean_index demo_gdf (map ?P (rows demo_gdf))) = [smith, jones]"
    by (simp add: boolean_index_def select_def demo_gdf_def s1 s2 s3)
  ultimately show ?thesis using n1 n2 by simp
qed

section \<open>The result of the filter, case by case\<close>

lemma attribute_filter_rows:
  "owner_compiles L owner_name \<Longrightarrow>
   attribute_filter L gdf acres_min acres_max owner_name placenames zipcodes schooldists
     estfmkvalu_min estfmkvalu_max =
   Inr (boolean_index gdf
          (map (satisfies L acres_min acres_max owner_name placenames zipcodes schooldists
                  estfmkvalu_min estfmkvalu_max) (rows gdf)))"
  by (simp add: attribute_filter_def attribute_mask_satisfies)

lemma rows_boolean_index: "rows (boolean_index f (map P (rows f))) = filter P (rows f)"
  by (simp add: boolean_index_def select_map)

lemma crs_boolean_index: "crs (boolean_index f bs) = crs f"
  by (simp add: boolean_index_def)

lemma proximity_result:
  assumes "crs f = Some src"
  shows "\<exists>g. proximity L f la lo d = Inr g \<and> crs g = Some wgs84 \<and>
             rows g = map (reproject L src) (filter (near L src la lo d) (rows f))"
proof -
  let ?p = "f\<lparr>crs := Some utm_crs,
              rows := map (\<lambda>r. r\<lparr>geometry := transform L src utm_crs (geometry r)\<rparr>) (rows f)\<rparr>"
  let ?Q = "\<lambda>r. intersects L (geometry r) (buffered_point L la lo d)"
  have p: "to_crs L f utm_crs = Inr ?p"
    using assms by (simp add: to_crs_def)
  let ?s = "boolean_index ?p (map ?Q (rows ?p))"
  have s_rows: "rows ?s = filter ?Q (rows ?p)"
    by (rule rows_boolean_index)
  have s_crs: "crs ?s = Some utm_crs"
    by (simp add: crs_boolean_index)
  let ?g = "?s\<lparr>crs := Some wgs84,
               rows := map (\<lambda>r. r\<lparr>geometry := transform L utm_crs wgs84 (geometry r)\<rparr>) (rows ?s)\<rparr>"
  have bck: "to_crs L ?s wgs84 = Inr ?g"
    using s_crs by (simp add: to_crs_def)
  have run: "proximity L f la lo d = Inr ?g"
    unfolding proximity_def p using bck by simp
  have "rows ?g = map (\<lambda>r. r\<lparr>geometry := transform L utm_crs wgs84 (geometry r)\<rparr>) (filter ?Q (rows ?p))"
    using s_rows by simp
  also have "\<dots> = map (reproject L src) (filter (near L src la lo d) (rows f))"
  proof -
    have rp: "reproject L src =
                (\<lambda>r. r\<lparr>geometry := transform L utm_crs wgs84 (transform L src utm_crs (geometry r))\<rparr>)"
      by (simp add: fun_eq_iff reproject_def)
    have nr: "near L src la lo d =
                (\<lambda>r. intersects L (transform L src utm_crs (geometry r)) (buffered_point L la lo d))"
      by (simp add: fun_eq_iff near_def)
    show ?thesis by (simp add: filter_map comp_def rp nr)
  qed
  finally have r: "rows ?g = map (reproject L src) (filter (near L src la lo d) (rows f))" .
  have c: "crs ?g = Some wgs84" by simp
  from run c r show ?thesis by blast
qed

lemma rows_assign_popup: "rows (assign_popup L f) = rows f"
  by (simp add: assign_popup_def)

lemma crs_assign_popup: "crs (assign_popup L f) = crs f"
  by (simp add: assign_popup_def)

lemma popup_assign_popup: "popup_content (assign_popup L f) = Some (map (popup_text L) (rows f))"
  by (simp add: assign_popup_def)

text \<open>The result of \<^verbatim>\<open>filter_parcels\<close> in its three cases: no proximity stage, a point
  out of the region, a point in the region.\<close>

lemma filter_parcels_plain:
  assumes "owner_compiles L owner_name"
    and "proximity_args lat lon distance_miles = None"
  shows "\<exists>f. filter_parcels L gdf acres_min acres_max owner_name placenames zipcodes schooldists
                estfmkvalu_min estfmkvalu_max lat lon distance_miles = Inr ([], f) \<and>
             crs f = crs gdf \<and>
             rows f = filter (satisfies L acres_min acres_max owner_name placenames zipcodes
                                schooldists estfmkvalu_min estfmkvalu_max) (rows gdf) \<and>
             popup_content f = Some (map (popup_text L) (rows f))"
  using assms
  by (simp add: filter_parcels_def attribute_filter_rows rows_assign_popup crs_assign_popup
      popup_assign_popup rows_boolean_index crs_boolean_index)

lemma filter_parcels_outside:
  assumes "owner_compiles L owner_name"
    and "proximity_args lat lon distance_miles = Some (la, lo, d)"
    and "\<not> in_region la lo"
  shows "filter_parcels L gdf acres_min acres_max owner_name placenames zipcodes schooldists
           estfmkvalu_min estfmkvalu_max lat lon distance_miles =
         Inr ([out_of_range_msg], GeoDataFrame)"
  using assms by (simp add: filter_parcels_def attribute_filter_rows)

lemma filter_parcels_near:
  assumes "owner_compiles L owner_name"
    and "proximity_args lat lon distance_miles = Some (la, lo, d)"
    and "in_region la lo"
    and "crs gdf = Some src"
  shows "\<exists>f. filter_parcels L gdf acres_min acres_max owner_name placenames zipcodes schooldists
                estfmkvalu_min estfmkvalu_max lat lon distance_miles = Inr ([], f) \<and>
             crs f = Some wgs84 \<and>
             rows f = map (reproject L src)
                        (filter (\<lambda>r. satisfies L acres_min acres_max owner_name placenames zipcodes
                                       schooldists estfmkvalu_min estfmkvalu_max r \<and>
                                     near L src la lo d r) (rows gdf)) \<and>
             popup_content f = Some (map (popup_text L) (rows f))"
proof -
  let ?P = "satisfies L acres_min acres_max owner_name placenames zipcodes schooldists
              estfmkvalu_min estfmkvalu_max"
  let ?a = "boolean_index gdf (map ?P (rows gdf))"
  have a: "attribute_filter L gdf acres_min acres_max owner_name placenames zipcodes schooldists
             estfmkvalu_min estfmkvalu_max = Inr ?a"
    using assms(1) by (rule attribute_filter_rows)
  have "crs ?a = Some src"
    using assms(4) by (simp add: crs_boolean_index)
  from proximity_result [OF this, of L la lo d]
  obtain g where g: "proximity L ?a la lo d = Inr g" "crs g = Some wgs84"
    "rows g = map (reproject L src) (filter (near L src la lo d) (rows ?a))"
    by blast
  have run: "filter_parcels L gdf acres_min acres_max owner_name placenames zipcodes schooldists
            estfmkvalu_min estfmkvalu_max lat lon distance_miles = Inr ([], assign_popup L g)"
    using assms(2,3) g(1) by (simp add: filter_parcels_def a)
  have r: "rows (assign_popup L g) = map (reproject L src)
                        (filter (\<lambda>r. ?P r \<and> near L src la lo d r) (rows gdf))"
    using g(3) by (simp add: rows_assign_popup rows_boolean_index)
  have c: "crs (assign_popup L g) = Some wgs84"
    using g(2) by (simp add: crs_assign_popup)
  from run r c popup_assign_popup [of L g] show ?thesis
    by (metis rows_assign_popup)
qed

section \<open>The guard of the proximity stage\<close>

lemma all_pass: "attribute_filter L demo_gdf 0 1000 None None None None None None = Inr demo_gdf"
proof -
  let ?P = "satisfies L 0 1000 None None None None None None"
  have s: "?P smith" "?P jones" "?P baker"
    by (simp_all add: demo_rows clause_defs)
  have "attribute_filter L demo_gdf 0 1000 None None None None None None =
          Inr (boolean_index demo_gdf (map ?P (rows demo_gdf)))"
    by (simp add: attribute_filter_def attribute_mask_satisfies owner_compiles_def)
  moreover have "boolean_index demo_gdf (map ?P (rows demo_gdf)) = demo_gdf"
    by (simp add: boolean_index_def select_def demo_gdf_def s)
  ultimately show ?thesis by simp
qed

text \<open>
  Claim C10. When \<^verbatim>\<open>lat\<close>, \<^verbatim>\<open>lon\<close> and \<^verbatim>\<open>distance_miles\<close> are all given and one of them is
  zero, \<^verbatim>\<open>filter_parcels\<close> skips the proximity stage: it gives no message, whatever the
  coordinates, and returns the attribute-filtered frame with its popup column, which is
  also what the call without the three arguments returns.
\<close>

theorem zero_argument_skips_proximity:
  assumes "lat = Some la" and "lon = Some lo" and "distance_miles = Some d"
    and "la = 0 \<or> lo = 0 \<or> d = 0"
  shows "filter_parcels L gdf acres_min acres_max owner_name placenames zipcodes schooldists
           estfmkvalu_min estfmkvalu_max lat lon distance_miles =
         (case attribute_filter L gdf acres_min acres_max owner_name placenames zipcodes schooldists
                 estfmkvalu_min estfmkvalu_max of
            Inl e \<Rightarrow> Inl e
          | Inr filtered \<Rightarrow> Inr ([], assign_popup L filtered)) \<and>
         filter_parcels L gdf acres_min acres_max owner_name placenames zipcodes schooldists
           estfmkvalu_min estfmkvalu_max lat lon distance_miles =
         filter_parcels L gdf acres_min acres_max owner_name placenames zipcodes schooldists
           estfmkvalu_min estfmkvalu_max None None None"
  using assms by (auto simp: filter_parcels_def proximity_args_def split: sum.splits)

theorem zero_argument_skips_proximity_witness:
  "\<not> in_region 45 (- 88) \<and>
   filter_parcels demo_libs demo_gdf 0 1000 None None None None None None
       (Some 45) (Some (- 88)) (Some 0) =
     Inr ([], assign_popup demo_libs demo_gdf)"
  using zero_argument_skips_proximity [of "Some 45" 45 "Some (- 88)" "- 88" "Some 0" 0
      demo_libs demo_gdf 0 1000 None None None None None None]
  by (simp add: all_pass in_region_def)

text \<open>
  Claim C3 asks for an out-of-region error and an empty result whenever the latitude is
  outside 42 to 44. At latitude 0, longitude -88 and one mile the point is out of the
  region, and the call gives no message and returns every row of the dataset with its
  popup text, for every library instance.
\<close>

theorem zero_latitude_passes_region_guard:
  "\<not> in_region 0 (- 88) \<and>
   (\<forall>L. filter_parcels L demo_gdf 0 1000 None None None None None None
          (Some 0) (Some (- 88)) (Some 1) = Inr ([], assign_popup L demo_gdf))"
  by (simp add: filter_parcels_def all_pass proximity_args_def in_region_def)

section \<open>Subset monotonicity\<close>

lemma subset_up_to_geometry:
  fixes xs ys :: "row list"
  assumes "set xs \<subseteq> set ys"
  shows "list_all (\<lambda>r2. list_ex (\<lambda>r1. r2 = r1\<lparr>geometry := geometry r2\<rparr>) ys) xs"
  unfolding list_all_iff list_ex_iff
proof
  fix r2
  assume "r2 \<in> set xs"
  with assms have "r2 \<in> set ys" by blast
  moreover have "r2 = r2\<lparr>geometry := geometry r2\<rparr>" by simp
  ultimately show "\<exists>r1 \<in> set ys. r2 = r1\<lparr>geometry := geometry r2\<rparr>" by blast
qed

lemma filter_parcels_monotone:
  assumes m1: "owner_compiles L q1" and m2: "owner_compiles L q2"
    and c: "crs gdf = Some src"
    and imp: "\<And>r. satisfies L a1 b1 q2 p2 z2 s2 v2 w2 r \<Longrightarrow> satisfies L a1 b1 q1 p1 z1 s1 v1 w1 r"
    and prox: "proximity_args x1 y1 d1 = None \<or>
               proximity_args x2 y2 d2 = proximity_args x1 y1 d1"
  shows "\<exists>n1 f1 n2 f2.
           filter_parcels L gdf a1 b1 q1 p1 z1 s1 v1 w1 x1 y1 d1 = Inr (n1, f1) \<and>
           filter_parcels L gdf a1 b1 q2 p2 z2 s2 v2 w2 x2 y2 d2 = Inr (n2, f2) \<and>
           list_all (\<lambda>r2. list_ex (\<lambda>r1. r2 = r1\<lparr>geometry := geometry r2\<rparr>) (rows f1)) (rows f2) \<and>
           (proximity_args x2 y2 d2 = proximity_args x1 y1 d1 \<longrightarrow> set (rows f2) \<subseteq> set (rows f1))"
proof -
  let ?P1 = "satisfies L a1 b1 q1 p1 z1 s1 v1 w1"
  let ?P2 = "satisfies L a1 b1 q2 p2 z2 s2 v2 w2"
  let ?run1 = "filter_parcels L gdf a1 b1 q1 p1 z1 s1 v1 w1 x1 y1 d1"
  let ?run2 = "filter_parcels L gdf a1 b1 q2 p2 z2 s2 v2 w2 x2 y2 d2"
  have geo: "\<And>r. reproject L src r = r\<lparr>geometry := geometry (reproject L src r)\<rparr>"
    by (simp add: reproject_def)
  show ?thesis
  proof (cases "proximity_args x2 y2 d2")
    case None
    with prox have n1: "proximity_args x1 y1 d1 = None" by auto
    from filter_parcels_plain [OF m1 n1, of gdf a1 b1 p1 z1 s1 v1 w1]
    obtain f1 where f1: "?run1 = Inr ([], f1)" "rows f1 = filter ?P1 (rows gdf)" by blast
    from filter_parcels_plain [OF m2 None, of gdf a1 b1 p2 z2 s2 v2 w2]
    obtain f2 where f2: "?run2 = Inr ([], f2)" "rows f2 = filter ?P2 (rows gdf)" by blast
    have sub: "set (rows f2) \<subseteq> set (rows f1)"
      using imp by (auto simp: f1(2) f2(2))
    then have "list_all (\<lambda>r2. list_ex (\<lambda>r1. r2 = r1\<lparr>geometry := geometry r2\<rparr>) (rows f1)) (rows f2)"
      by (rule subset_up_to_geometry)
    with f1(1) f2(1) sub show ?thesis by blast
  next
    case (Some t)
    obtain la lo d where t: "t = (la, lo, d)" by (cases t) auto
    with Some have a2: "proximity_args x2 y2 d2 = Some (la, lo, d)" by simp
    show ?thesis
    proof (cases "in_region la lo")
      case False
      have r2: "?run2 = Inr ([out_of_range_msg], GeoDataFrame)"
        using filter_parcels_outside [OF m2 a2 False] .
      have e: "rows GeoDataFrame = []" by (simp add: GeoDataFrame_def)
      show ?thesis
      proof (cases "proximity_args x1 y1 d1")
        case None
        from filter_parcels_plain [OF m1 None, of gdf a1 b1 p1 z1 s1 v1 w1]
        obtain f1 where f1: "?run1 = Inr ([], f1)" by blast
        with r2 e show ?thesis by auto
      next
        case (Some u)
        with prox a2 have "proximity_args x1 y1 d1 = Some (la, lo, d)" by auto
        from filter_parcels_outside [OF m1 this False]
        have "?run1 = Inr ([out_of_range_msg], GeoDataFrame)" .
        with r2 e show ?thesis by auto
      qed
    next
      case True
      from filter_parcels_near [OF m2 a2 True c, of a1 b1 p2 z2 s2 v2 w2]
      obtain f2 where f2: "?run2 = Inr ([], f2)"
        "rows f2 = map (reproject L src) (filter (\<lambda>r. ?P2 r \<and> near L src la lo d r) (rows gdf))"
        by blast
      show ?thesis
      proof (cases "proximity_args x1 y1 d1")
        case None
        from filter_parcels_plain [OF m1 None, of gdf a1 b1 p1 z1 s1 v1 w1]
        obtain f1 where f1: "?run1 = Inr ([], f1)" "rows f1 = filter ?P1 (rows gdf)" by blast
        have "list_all (\<lambda>r2. list_ex (\<lambda>r1. r2 = r1\<lparr>geometry := geometry r2\<rparr>) (rows f1)) (rows f2)"
          unfolding list_all_iff list_ex_iff f1(2) f2(2)
        proof
          fix r2
          assume "r2 \<in> set (map (reproject L src) (filter (\<lambda>r. ?P2 r \<and> near L src la lo d r) (rows gdf)))"
          then obtain r where r: "r \<in> set (rows gdf)" "?P2 r" "r2 = reproject L src r"
            by auto
          from r(1,2) imp have "r \<in> set (filter ?P1 (rows gdf))" by simp
          moreover have "r2 = r\<lparr>geometry := geometry r2\<rparr>"
            unfolding r(3) by (rule geo)
          ultimately show "\<exists>r1 \<in> set (filter ?P1 (rows gdf)). r2 = r1\<lparr>geometry := geometry r2\<rparr>"
            by blast
        qed
        moreover have "proximity_args x2 y2 d2 \<noteq> proximity_args x1 y1 d1"
          using None a2 by simp
        ultimately show ?thesis using f1(1) f2(1) by blast
      next
        case (Some u)
        with prox a2 have "proximity_args x1 y1 d1 = Some (la, lo, d)" by auto
        from filter_parcels_near [OF m1 this True c, of a1 b1 p1 z1 s1 v1 w1]
        obtain f1 where f1: "?run1 = Inr ([], f1)"
          "rows f1 = map (reproject L src) (filter (\<lambda>r. ?P1 r \<and> near L src la lo d r) (rows gdf))"
          by blast
        have sub: "set (rows f2) \<subseteq> set (rows f1)"
          using imp by (auto simp: f1(2) f2(2))
        from sub have "list_all (\<lambda>r2. list_ex (\<lambda>r1. r2 = r1\<lparr>geometry := geometry r2\<rparr>) (rows f1)) (rows f2)"
          by (rule subset_up_to_geometry)
        with f1(1) f2(1) sub show ?thesis by blast
      qed
    qed
  qed
qed


lemma clause_off:
  "\<not> owner_active q \<Longrightarrow> owner_clause L q c"
  "\<not> list_active vals \<Longrightarrow> member_clause vals c'"
  "\<not> value_active lo hi \<Longrightarrow> value_clause lo hi c''"
  by (simp_all add: owner_clause_def member_clause_def value_clause_def)

lemma refines_owner: "\<not> owner_active (owner c1) \<Longrightarrow> c2 = c1\<lparr>owner := x\<rparr> \<Longrightarrow> refines L c1 c2"
  by (simp add: refines_def satisfies_def clause_off)

lemma refines_places: "\<not> list_active (places c1) \<Longrightarrow> c2 = c1\<lparr>places := x\<rparr> \<Longrightarrow> refines L c1 c2"
  by (simp add: refines_def satisfies_def clause_off)

lemma refines_zips: "\<not> list_active (zips c1) \<Longrightarrow> c2 = c1\<lparr>zips := x\<rparr> \<Longrightarrow> refines L c1 c2"
  by (simp add: refines_def satisfies_def clause_off)

lemma refines_schools: "\<not> list_active (schools c1) \<Longrightarrow> c2 = c1\<lparr>schools := x\<rparr> \<Longrightarrow> refines L c1 c2"
  by (simp add: refines_def satisfies_def clause_off)

lemma refines_value:
  "\<not> value_active (value_lo c1) (value_hi c1) \<Longrightarrow> c2 = c1\<lparr>value_lo := x, value_hi := y\<rparr> \<Longrightarrow>
   refines L c1 c2"
  by (simp add: refines_def satisfies_def clause_off)

lemma refines_proximity:
  assumes "\<not> proximity_active c1" and "proximity_active c2"
    and "c2 = c1\<lparr>q_lat := x, q_lon := y, q_miles := z\<rparr>"
  shows "refines L c1 c2"
proof -
  from assms(1) have "proximity_args (q_lat c1) (q_lon c1) (q_miles c1) = None"
    unfolding proximity_active_def by blast
  moreover from assms(1,2) have "proximity_active c2 \<noteq> proximity_active c1"
    by simp
  ultimately show ?thesis
    using assms(3) by (simp add: refines_def)
qed

lemma adds_restriction_refines:
  assumes "adds_restriction c1 c2"
  shows "refines L c1 c2"
  using assms unfolding adds_restriction_def
proof (elim disjE conjE)
  assume "\<not> owner_active (owner c1)" "c2 = c1\<lparr>owner := owner c2\<rparr>"
  then show ?thesis by (rule refines_owner)
next
  assume "\<not> list_active (places c1)" "c2 = c1\<lparr>places := places c2\<rparr>"
  then show ?thesis by (rule refines_places)
next
  assume "\<not> list_active (zips c1)" "c2 = c1\<lparr>zips := zips c2\<rparr>"
  then show ?thesis by (rule refines_zips)
next
  assume "\<not> list_active (schools c1)" "c2 = c1\<lparr>schools := schools c2\<rparr>"
  then show ?thesis by (rule refines_schools)
next
  assume "\<not> value_active (value_lo c1) (value_hi c1)"
    "c2 = c1\<lparr>value_lo := value_lo c2, value_hi := value_hi c2\<rparr>"
  then show ?thesis by (rule refines_value)
next
  assume "\<not> proximity_active c1" "proximity_active c2"
    "c2 = c1\<lparr>q_lat := q_lat c2, q_lon := q_lon c2, q_miles := q_miles c2\<rparr>"
  then show ?thesis by (rule refines_proximity)
qed

text \<open>
  Claim C7. When \<open>c2\<close> is \<open>c1\<close> plus one more active restriction (an owner query, a
  membership list, the market-value range or the proximity query, switched on where it
  was off), both calls return on a dataset with a CRS and owner queries that compile,
  and every row of the second result is a row of the first: the index labels of the
  second are among those of the first, each row of the second equals a row of the first
  in the index and in every attribute, and when the restriction added is not the
  proximity query the rows of the second are rows of the first as they are. (The
  proximity stage returns each row with its geometry reprojected there and back.)
\<close>

theorem subset_monotonicity:
  assumes add: "adds_restriction c1 c2"
    and m1: "owner_compiles L (owner c1)" and m2: "owner_compiles L (owner c2)"
    and c: "crs gdf = Some src"
  shows "\<exists>n1 f1 n2 f2.
           apply_criteria L gdf c1 = Inr (n1, f1) \<and>
           apply_criteria L gdf c2 = Inr (n2, f2) \<and>
           idx ` set (rows f2) \<subseteq> idx ` set (rows f1) \<and>
           list_all (\<lambda>r2. list_ex (\<lambda>r1. r2 = r1\<lparr>geometry := geometry r2\<rparr>) (rows f1)) (rows f2) \<and>
           (proximity_active c2 = proximity_active c1 \<longrightarrow> set (rows f2) \<subseteq> set (rows f1))"
proof -
  let ?a1 = "proximity_args (q_lat c1) (q_lon c1) (q_miles c1)"
  let ?a2 = "proximity_args (q_lat c2) (q_lon c2) (q_miles c2)"
  from add have ref: "refines L c1 c2" by (rule adds_restriction_refines)
  then have same: "acres_lo c2 = acres_lo c1" "acres_hi c2 = acres_hi c1"
    and prox: "?a1 = None \<or> ?a2 = ?a1"
    and act: "proximity_active c2 = proximity_active c1 \<longrightarrow> ?a2 = ?a1"
    by (simp_all add: refines_def)
  have imp: "\<And>r. satisfies L (acres_lo c1) (acres_hi c1) (owner c2) (places c2) (zips c2) (schools c2)
             (value_lo c2) (value_hi c2) r \<Longrightarrow>
           satisfies L (acres_lo c1) (acres_hi c1) (owner c1) (places c1) (zips c1) (schools c1)
             (value_lo c1) (value_hi c1) r"
    using ref unfolding refines_def by (simp add: same)
  from filter_parcels_monotone [OF m1 m2 c imp prox]
  obtain n1 f1 n2 f2 where
    r1: "apply_criteria L gdf c1 = Inr (n1, f1)" and
    r2: "apply_criteria L gdf c2 = Inr (n2, f2)" and
    up: "list_all (\<lambda>r2. list_ex (\<lambda>r1. r2 = r1\<lparr>geometry := geometry r2\<rparr>) (rows f1)) (rows f2)" and
    sub: "?a2 = ?a1 \<longrightarrow> set (rows f2) \<subseteq> set (rows f1)"
    unfolding apply_criteria_def same by blast
  have "idx ` set (rows f2) \<subseteq> idx ` set (rows f1)"
  proof
    fix i assume "i \<in> idx ` set (rows f2)"
    then obtain r2 where r2: "r2 \<in> set (rows f2)" "i = idx r2" by blast
    with up obtain r1 where r1: "r1 \<in> set (rows f1)" "r2 = r1\<lparr>geometry := geometry r2\<rparr>"
      by (auto simp: list_all_iff list_ex_iff)
    from r1(2) have "idx r2 = idx (r1\<lparr>geometry := geometry r2\<rparr>)" by simp
    then have "idx r2 = idx r1" by simp
    with r1(1) r2(2) show "i \<in> idx ` set (rows f1)" by blast
  qed
  with r1 r2 up sub act show ?thesis by blast
qed

theorem subset_monotonicity_witness:
  "adds_restriction no_restriction three_miles \<and>
   owner_compiles demo_libs (owner no_restriction) \<and> owner_compiles demo_libs (owner three_miles) \<and>
   crs demo_gdf = Some ''EPSG:4326'' \<and>
   (\<exists>n1 f1 n2 f2.
      apply_criteria demo_libs demo_gdf no_restriction = Inr (n1, f1) \<and>
      apply_criteria demo_libs demo_gdf three_miles = Inr (n2, f2) \<and>
      idx ` set (rows f2) \<subseteq> idx ` set (rows f1))"
proof -
  have a: "adds_restriction no_restriction three_miles"
    by (simp add: adds_restriction_def three_miles_def no_restriction_def proximity_active_def
        proximity_args_def)
  have m1: "owner_compiles demo_libs (owner no_restriction)"
    by (simp add: no_restriction_def owner_compiles_def)
  have m2: "owner_compiles demo_libs (owner three_miles)"
    by (simp add: three_miles_def no_restriction_def owner_compiles_def)
  have c: "crs demo_gdf = Some ''EPSG:4326''"
    by (simp add: demo_gdf_def)
  from subset_monotonicity [OF a m1 m2 c] a m1 m2 c
  show ?thesis by blast
qed

section \<open>The proximity stage at radius zero\<close>

text \<open>
  Claim C2 asks that an in-region query keep exactly the candidates whose geometry
  intersects the buffer of radius \<^verbatim>\<open>radius_miles * 1609.34\<close>. At latitude 43, longitude
  -88 and radius 0 the point is in the region and, in the example library, no row of the
  dataset intersects the buffer; the call returns every row of the dataset with its
  popup text, and does so for every library instance: the stage does not run.
\<close>

theorem zero_radius_skips_proximity:
  "in_region 43 (- 88) \<and>
   \<not> list_ex (near demo_libs wgs84 43 (- 88) 0) (rows demo_gdf) \<and>
   (\<forall>L. filter_parcels L demo_gdf 0 1000 None None None None None None
          (Some 43) (Some (- 88)) (Some 0) = Inr ([], assign_popup L demo_gdf))"
proof -
  have "buffered_point demo_libs 43 (- 88) 0 = []"
    by (simp add: buffered_point_def demo_libs_def demo_buffer_def demo_transform_def
        wgs84_def utm_crs_def)
  then have "\<And>r. \<not> near demo_libs wgs84 43 (- 88) 0 r"
    by (simp add: near_def demo_libs_def demo_intersects_def)
  then have "\<not> list_ex (near demo_libs wgs84 43 (- 88) 0) (rows demo_gdf)"
    by (simp add: list_ex_iff)
  then show ?thesis
    by (simp add: filter_parcels_def all_pass proximity_args_def in_region_def)
qed

section \<open>The input frame is not modified\<close>

text \<open>The function on the store returns what the function on values returns: the same
  failure, or a reference to the same frame, with the same messages added.\<close>

lemma filter_parcels_store_result:
  "(case filter_parcels L (cells s gdf) acres_min acres_max owner_name placenames zipcodes
           schooldists estfmkvalu_min estfmkvalu_max lat lon distance_miles of
      Inl e \<Rightarrow>
        snd (filter_parcels_store L s gdf acres_min acres_max owner_name placenames zipcodes
               schooldists estfmkvalu_min estfmkvalu_max lat lon distance_miles) = Inl e
    | Inr (msgs, f) \<Rightarrow>
        (\<exists>r. snd (filter_parcels_store L s gdf acres_min acres_max owner_name placenames zipcodes
                    schooldists estfmkvalu_min estfmkvalu_max lat lon distance_miles) = Inr r \<and>
             cells (fst (filter_parcels_store L s gdf acres_min acres_max owner_name placenames
                           zipcodes schooldists estfmkvalu_min estfmkvalu_max lat lon
                           distance_miles)) r = f \<and>
             errors (fst (filter_parcels_store L s gdf acres_min acres_max owner_name placenames
                            zipcodes schooldists estfmkvalu_min estfmkvalu_max lat lon
                            distance_miles)) = errors s @ msgs))"
  by (auto simp: filter_parcels_def filter_parcels_store_def attribute_filter_def alloc_def
      set_popup_def st_error_def proximity_def proximity_store_def Let_def
      split: sum.splits option.splits prod.splits if_splits)

lemma extends_refl: "extends s s"
  by (simp add: extends_def)

lemma extends_trans: "extends s t \<Longrightarrow> extends t u \<Longrightarrow> extends s u"
  by (auto simp: extends_def)

lemma extends_alloc: "alloc f s = (s', r) \<Longrightarrow> extends s s' \<and> r = next_ref s \<and> next_ref s' = Suc (next_ref s) \<and> cells s' r = f \<and> errors s' = errors s"
  by (auto simp: alloc_def extends_def)

lemma extends_set_popup: "next_ref s \<le> r \<Longrightarrow> extends s (set_popup L r s)"
  by (simp add: set_popup_def extends_def)

lemma extends_st_error: "extends s (st_error msg s)"
  by (simp add: st_error_def extends_def)

lemma next_ref_set_popup: "next_ref (set_popup L r s) = next_ref s"
  by (simp add: set_popup_def)

lemma proximity_store_extends:
  assumes "proximity_store L s filtered la lo d = (s', res)"
  shows "extends s s' \<and> errors s' = errors s \<and> (\<forall>r. res = Inr r \<longrightarrow> next_ref s \<le> r \<and> r < next_ref s')"
proof (cases "to_crs L (cells s filtered) utm_crs")
  case (Inl e)
  with assms show ?thesis by (auto simp: proximity_store_def extends_refl)
next
  case (Inr projected)
  obtain s1 r1 where a1: "alloc projected s = (s1, r1)" by (cases "alloc projected s")
  let ?sel = "boolean_index (cells s1 r1)
                (map (\<lambda>r. intersects L (geometry r) (buffered_point L la lo d)) (rows (cells s1 r1)))"
  obtain s2 r2 where a2: "alloc ?sel s1 = (s2, r2)" by (cases "alloc ?sel s1")
  from extends_alloc [OF a1] extends_alloc [OF a2]
  have e2: "extends s s2" "next_ref s2 = Suc (Suc (next_ref s))" "errors s2 = errors s"
    by (auto intro: extends_trans)
  show ?thesis
  proof (cases "to_crs L (cells s2 r2) wgs84")
    case (Inl e)
    with assms Inr a1 a2 have "s' = s2" "res = Inl e"
      by (simp_all add: proximity_store_def)
    with e2 show ?thesis by simp
  next
    case (Inr bk)
    obtain s3 r3 where a3: "alloc bk s2 = (s3, r3)" by (cases "alloc bk s2")
    with assms \<open>to_crs L (cells s filtered) utm_crs = Inr projected\<close> Inr a1 a2
    have "s' = s3" "res = Inr r3"
      by (simp_all add: proximity_store_def)
    moreover from extends_alloc [OF a3] e2
    have "extends s s3" "next_ref s \<le> r3" "r3 < next_ref s3" "errors s3 = errors s"
      by (auto intro: extends_trans)
    ultimately show ?thesis by simp
  qed
qed

lemma filter_parcels_store_extends:
  "extends s (fst (filter_parcels_store L s gdf acres_min acres_max owner_name placenames zipcodes
                       schooldists estfmkvalu_min estfmkvalu_max lat lon distance_miles)) \<and>
   (\<forall>r. snd (filter_parcels_store L s gdf acres_min acres_max owner_name placenames zipcodes
                       schooldists estfmkvalu_min estfmkvalu_max lat lon distance_miles) = Inr r
        \<longrightarrow> next_ref s \<le> r)"
proof -
  let ?run = "filter_parcels_store L s gdf acres_min acres_max owner_name placenames zipcodes
                       schooldists estfmkvalu_min estfmkvalu_max lat lon distance_miles"
  obtain s1 r1 where a1: "alloc (cells s gdf) s = (s1, r1)" by (cases "alloc (cells s gdf) s")
  from extends_alloc [OF a1] have e1: "extends s s1" "next_ref s1 = Suc (next_ref s)" by auto
  show ?thesis
  proof (cases "attribute_mask L (cells s1 r1) acres_min acres_max owner_name placenames
                  zipcodes schooldists estfmkvalu_min estfmkvalu_max")
    case (Inl e)
    with a1 have "?run = (s1, Inl e)" by (simp add: filter_parcels_store_def)
    with e1 show ?thesis by simp
  next
    case (Inr m)
    note mask = this
    obtain s2 r2 where a2: "alloc (boolean_index (cells s1 r1) m) s1 = (s2, r2)"
      by (cases "alloc (boolean_index (cells s1 r1) m) s1")
    from extends_alloc [OF a2] e1
    have e2: "extends s s2" "next_ref s \<le> r2" "r2 < next_ref s2"
      by (auto intro: extends_trans)
    show ?thesis
    proof (cases "proximity_args lat lon distance_miles")
      case None
      with a1 mask a2 have "?run = (set_popup L r2 s2, Inr r2)"
        by (simp add: filter_parcels_store_def)
      moreover have "extends s (set_popup L r2 s2)"
        using e2 by (auto simp: extends_def set_popup_def)
      ultimately show ?thesis using e2(2) by simp
    next
      case (Some t)
      obtain la lo d where t: "t = (la, lo, d)" by (cases t) auto
      show ?thesis
      proof (cases "in_region la lo")
        case False
        obtain s3 r3 where a3: "alloc GeoDataFrame (st_error out_of_range_msg s2) = (s3, r3)"
          by (cases "alloc GeoDataFrame (st_error out_of_range_msg s2)")
        with a1 mask a2 Some t False have "?run = (s3, Inr r3)"
          by (simp add: filter_parcels_store_def)
        moreover from extends_alloc [OF a3] extends_st_error [of s2 out_of_range_msg] e2(1)
        have "extends s s3" by (auto intro: extends_trans)
        moreover from extends_alloc [OF a3] e2(1) have "next_ref s \<le> r3"
          by (simp add: st_error_def extends_def)
        ultimately show ?thesis by simp
      next
        case True
        obtain s3 res where p: "proximity_store L s2 r2 la lo d = (s3, res)"
          by (cases "proximity_store L s2 r2 la lo d")
        from proximity_store_extends [OF p] e2(1)
        have e3: "extends s s3" "\<forall>r. res = Inr r \<longrightarrow> next_ref s2 \<le> r"
          by (auto intro: extends_trans)
        show ?thesis
        proof (cases res)
          case (Inl e)
          with a1 mask a2 Some t True p have "?run = (s3, Inl e)"
            by (simp add: filter_parcels_store_def)
          with e3 show ?thesis by simp
        next
          case (Inr r3)
          with a1 mask a2 Some t True p
          have "?run = (set_popup L r3 s3, Inr r3)"
            by (simp add: filter_parcels_store_def)
          moreover from e3 Inr e2 have r3: "next_ref s \<le> r3" by (auto simp: extends_def)
          moreover from r3 e3(1) have "extends s (set_popup L r3 s3)"
            by (auto simp: extends_def set_popup_def)
          ultimately show ?thesis by simp
        qed
      qed
    qed
  qed
qed

text \<open>
  Claim C9. For every call of \<^verbatim>\<open>filter_parcels\<close>, with or without the proximity stage
  and whether it returns or fails, the frame the argument \<^verbatim>\<open>gdf\<close> refers to is the same
  after the call as before it: same rows, attribute values and geometries. So is every
  other frame that existed before the call, and the reference returned is not \<^verbatim>\<open>gdf\<close>:
  the copies, the selections and the reprojections are new objects, and the popup
  column is written into one of them.
\<close>

theorem input_frames_unchanged:
  assumes "gdf < next_ref s"
  shows "cells (fst (filter_parcels_store L s gdf acres_min acres_max owner_name placenames zipcodes
                       schooldists estfmkvalu_min estfmkvalu_max lat lon distance_miles)) gdf =
           cells s gdf \<and>
         (\<forall>r. r < next_ref s \<longrightarrow>
            cells (fst (filter_parcels_store L s gdf acres_min acres_max owner_name placenames
                          zipcodes schooldists estfmkvalu_min estfmkvalu_max lat lon
                          distance_miles)) r = cells s r) \<and>
         (\<forall>r. snd (filter_parcels_store L s gdf acres_min acres_max owner_name placenames zipcodes
                       schooldists estfmkvalu_min estfmkvalu_max lat lon distance_miles) = Inr r
              \<longrightarrow> r \<noteq> gdf)"
  using assms
    filter_parcels_store_extends [of s L gdf acres_min acres_max owner_name placenames zipcodes
      schooldists estfmkvalu_min estfmkvalu_max lat lon distance_miles]
  unfolding extends_def by auto

theorem input_frames_unchanged_witness:
  "0 < next_ref demo_store \<and>
   cells (fst (filter_parcels_store demo_libs demo_store 0 0 1000 None None None None None None
                 (Some 43) (Some (- 88)) (Some 3))) 0 = demo_gdf"
  using input_frames_unchanged [of 0 demo_store demo_libs 0 1000 None None None None None None
      "Some 43" "Some (- 88)" "Some 3"]
  by (simp add: demo_store_def)

section \<open>The popup text\<close>

lemma presents_popup_text: "presents L r (popup_text L r)"
proof -
  let ?o = "''Owner: '' @ fstr_text (OWNERNME1 r)"
  let ?a = "''Acres: '' @ fstr_num L (GISACRES r)"
  let ?v = "''Market Value: '' @ fstr_num L (ESTFMKVALU r)"
  have h: "popup_head L r = ?o @ ''<br>'' @ ?a @ ''<br>'' @ ?v @ ''<br>''"
    by (simp add: popup_head_def)
  obtain t where t: "popup_text L r = popup_head L r @ t"
    and tl: "(case URL r of
         Some u \<Rightarrow>
           t = ''Tax Site: <a href='' @ [CHR 0x27] @ u @ [CHR 0x27] @ '' target='' @
                   [CHR 0x27] @ ''_blank'' @ [CHR 0x27] @ ''>Link to Tax Site</a>''
       | None \<Rightarrow> t = ''Tax Site: No URL available'')"
    by (cases "URL r") (simp_all add: popup_text_def)
  have 1: "sublist ?o (popup_text L r)"
    unfolding t h sublist_def by (rule exI [of _ "[]"]) simp
  have 2: "sublist ?a (popup_text L r)"
    unfolding t h sublist_def by (rule exI [of _ "?o @ ''<br>''"]) simp
  have 3: "sublist ?v (popup_text L r)"
    unfolding t h sublist_def by (rule exI [of _ "?o @ ''<br>'' @ ?a @ ''<br>''"]) simp
  have 4: "suffix t (popup_text L r)"
    unfolding t by (rule suffix_appendI) simp
  from 1 2 3 4 tl show ?thesis
    unfolding presents_def by (cases "URL r") simp_all
qed

lemma presents_all: "list_all2 (presents L) xs (map (popup_text L) xs)"
  by (induction xs) (simp_all add: presents_popup_text)

lemma smith_passes: "attribute_filter L smith_only 0 1000 None None None None None None = Inr smith_only"
proof -
  let ?P = "satisfies L 0 1000 None None None None None None"
  have s: "?P smith" by (simp add: smith_def clause_defs)
  have "attribute_filter L smith_only 0 1000 None None None None None None =
          Inr (boolean_index smith_only (map ?P (rows smith_only)))"
    by (simp add: attribute_filter_rows owner_compiles_def)
  moreover have "boolean_index smith_only (map ?P (rows smith_only)) = smith_only"
    by (simp add: boolean_index_def select_def smith_only_def s)
  ultimately show ?thesis by simp
qed

lemma smith_popup_text: "popup_text demo_libs smith = smith_popup"
  by (simp add: popup_text_def popup_head_def fstr_text_def fstr_num_def demo_libs_def smith_def
      smith_popup_def)

text \<open>
  Claim C8 names the marker of a row without URL as the literal \<^verbatim>\<open>no URL available\<close>.
  The row of the example has no URL; the filter returns it with the popup text below,
  which does not contain that literal: the text of the source is
  \<^verbatim>\<open>Tax Site: No URL available\<close>, with a capital N.
\<close>

theorem popup_marker_counterexample:
  "URL smith = None \<and>
   filter_parcels demo_libs smith_only 0 1000 None None None None None None None None None =
     Inr ([], \<lparr>crs = Some ''EPSG:4326'', rows = [smith], popup_content = Some [smith_popup]\<rparr>) \<and>
   \<not> sublist ''no URL available'' smith_popup"
proof -
  have 1: "URL smith = None" by (simp add: smith_def)
  have 2: "filter_parcels demo_libs smith_only 0 1000 None None None None None None None None None =
     Inr ([], \<lparr>crs = Some ''EPSG:4326'', rows = [smith], popup_content = Some [smith_popup]\<rparr>)"
    by (simp add: filter_parcels_def smith_passes proximity_args_def assign_popup_def)
      (simp add: smith_only_def smith_popup_text)
  have 3: "\<not> sublist ''no URL available'' smith_popup"
    by (simp add: smith_popup_def sublist_code prefix_code)
  from 1 2 3 show ?thesis by simp
qed

text \<open>
  Claim C8, amended. For every call of \<^verbatim>\<open>filter_parcels\<close> on a dataset with a CRS and
  an owner query that compiles, the call returns a frame that has one popup text for
  each of its rows, in order, and the text of a row embeds its owner, its acreage and
  its market value, and ends with the link to its URL when the URL is not null, and with
  the marker \<^verbatim>\<open>Tax Site: No URL available\<close> and no link otherwise.
\<close>

theorem popup_for_every_row:
  assumes "owner_compiles L owner_name" and "crs gdf = Some src"
  shows "\<exists>msgs f.
           filter_parcels L gdf acres_min acres_max owner_name placenames zipcodes schooldists
             estfmkvalu_min estfmkvalu_max lat lon distance_miles = Inr (msgs, f) \<and>
           list_all2 (presents L) (rows f) (popups f)"
proof (cases "proximity_args lat lon distance_miles")
  case None
  from filter_parcels_plain [OF assms(1) None, of gdf acres_min acres_max placenames zipcodes
      schooldists estfmkvalu_min estfmkvalu_max]
  obtain f where "filter_parcels L gdf acres_min acres_max owner_name placenames zipcodes
      schooldists estfmkvalu_min estfmkvalu_max lat lon distance_miles = Inr ([], f)"
    and "popup_content f = Some (map (popup_text L) (rows f))"
    by blast
  then show ?thesis by (auto simp: popups_def presents_all)
next
  case (Some t)
  obtain la lo d where t: "t = (la, lo, d)" by (cases t) auto
  with Some have a: "proximity_args lat lon distance_miles = Some (la, lo, d)" by simp
  show ?thesis
  proof (cases "in_region la lo")
    case False
    from filter_parcels_outside [OF assms(1) a False]
    show ?thesis by (auto simp: popups_def GeoDataFrame_def)
  next
    case True
    from filter_parcels_near [OF assms(1) a True assms(2), of acres_min acres_max placenames
        zipcodes schooldists estfmkvalu_min estfmkvalu_max]
    obtain f where "filter_parcels L gdf acres_min acres_max owner_name placenames zipcodes
        schooldists estfmkvalu_min estfmkvalu_max lat lon distance_miles = Inr ([], f)"
      and "popup_content f = Some (map (popup_text L) (rows f))"
      by blast
    then show ?thesis by (auto simp: popups_def presents_all)
  qed
qed

theorem popup_for_every_row_witness:
  "owner_compiles demo_libs None \<and> crs demo_gdf = Some ''EPSG:4326'' \<and>
   (\<exists>msgs f.
      filter_parcels demo_libs demo_gdf 0 1000 None None None None None None
        (Some 43) (Some (- 88)) (Some 3) = Inr (msgs, f) \<and>
      list_all2 (presents demo_libs) (rows f) (popups f))"
proof -
  have m: "owner_compiles demo_libs None" by (simp add: owner_compiles_def)
  have c: "crs demo_gdf = Some ''EPSG:4326''" by (simp add: demo_gdf_def)
  from popup_for_every_row [OF m c, of 0 1000 None None None None None
      "Some 43" "Some (- 88)" "Some 3"] m c
  show ?thesis by blast
qed

section \<open>Truncation and bounds\<close>

lemma generate_map_html_rows:
  assumes "popup_content f = Some ps"
  shows "\<exists>m. generate_map_html L (Some f) b = Inr (m, 1000 < length (rows f)) \<and>
             rendered_rows m = take 1000 (rows f) \<and> fitted m = b"
proof (cases "rows f = []")
  case True
  then show ?thesis
    by (simp add: generate_map_html_def rendered_rows_def folium_Map_def)
next
  case False
  show ?thesis
  proof (cases "1000 < length (rows f)")
    case True
    with False assms show ?thesis
      by (simp add: generate_map_html_def rendered_rows_def head_def Let_def)
  next
    case False
    with \<open>rows f \<noteq> []\<close> assms show ?thesis
      by (simp add: generate_map_html_def rendered_rows_def Let_def)
  qed
qed

lemma main_page_nonempty:
  assumes "popup_content f = Some ps" and "rows f \<noteq> []"
  shows "\<exists>st' m.
           main_page L st (Some f) = Inr (st', Html m # (if 1000 < length (rows f) then [Warning map_truncated_msg] else []) @ main_table st') \<and>
           filtered_gdf st' = Some f \<and>
           session_bounds st' = Some (padded_bounds f) \<and>
           map_truncated st' = (1000 < length (rows f)) \<and>
           rendered_rows m = take 1000 (rows f) \<and>
           fitted m = Some (padded_bounds f)"
proof -
  from generate_map_html_rows [OF assms(1), of L "Some (padded_bounds f)"]
  obtain m where m: "generate_map_html L (Some f) (Some (padded_bounds f)) = Inr (m, 1000 < length (rows f))"
    "rendered_rows m = take 1000 (rows f)" "fitted m = Some (padded_bounds f)"
    by blast
  let ?st2 = "st\<lparr>filtered_gdf := Some f, session_bounds := Some (padded_bounds f),
                  map_file := Some m, map_truncated := 1000 < length (rows f)\<rparr>"
  have a: "main_apply L st (Some f) = Inr (?st2, [])"
    using assms(2) m(1) by (simp add: main_apply_def)
  have r: "main_refresh L ?st2 = Inr ?st2"
    using assms(2) m(1) by (simp add: main_refresh_def)
  have "main_page L st (Some f) = Inr (?st2, main_map ?st2 @ main_table ?st2)"
    by (simp add: main_page_def a r)
  moreover have "main_map ?st2 = Html m # (if 1000 < length (rows f) then [Warning map_truncated_msg] else [])"
    by (simp add: main_map_def)
  ultimately show ?thesis using m(2,3) by simp
qed

lemma main_table_rows:
  assumes "filtered_gdf st = Some f" and "rows f \<noteq> []"
  shows "counts (main_table st) = [length (rows f)] \<and>
         tables (main_table st) = [take 1000 (rows f)] \<and>
         html_maps (main_table st) = [] \<and>
         (table_truncated_msg \<in> set (warnings (main_table st)) \<longleftrightarrow> 1000 < length (rows f))"
  using assms
  by (simp add: main_table_def counts_def tables_def html_maps_def warnings_def head_def)

text \<open>
  Claim C4. For every frame \<^verbatim>\<open>main\<close> receives from the filter (one that has its popup
  column when it has rows), the page shows one map and the count of all rows of the
  frame. When the frame has more than 1000 rows the truncated flag is set, the GeoJson
  layer of the map holds exactly the first 1000 rows, the table holds the same 1000 rows,
  and both truncation warnings are shown. When it has at most 1000 rows the flag is not
  set, the map and the table hold all rows, and no truncation warning is shown.
\<close>

theorem truncation_policy:
  assumes "rows f \<noteq> [] \<longrightarrow> popup_content f \<noteq> None"
  shows "\<exists>st' out m.
           main_page L st (Some f) = Inr (st', out) \<and>
           html_maps out = [m] \<and>
           counts out = [length (rows f)] \<and>
           (1000 < length (rows f) \<longrightarrow>
              map_truncated st' \<and>
              rendered_rows m = take 1000 (rows f) \<and> length (rendered_rows m) = 1000 \<and>
              tables out = [take 1000 (rows f)] \<and>
              map_truncated_msg \<in> set (warnings out) \<and>
              table_truncated_msg \<in> set (warnings out)) \<and>
           (length (rows f) \<le> 1000 \<longrightarrow>
              \<not> map_truncated st' \<and>
              rendered_rows m = rows f \<and>
              concat (tables out) = rows f \<and>
              map_truncated_msg \<notin> set (warnings out) \<and>
              table_truncated_msg \<notin> set (warnings out))"
proof (cases "rows f = []")
  case True
  let ?st = "st\<lparr>filtered_gdf := Some f, session_bounds := None, map_file := None,
                 map_truncated := False\<rparr>"
  have a: "main_apply L st (Some f) = Inr (?st, [Warning no_match_msg])"
    using True by (simp add: main_apply_def)
  have r: "main_refresh L ?st = Inr ?st"
    using True by (simp add: main_refresh_def)
  have p: "main_page L st (Some f) =
          Inr (?st, [Warning no_match_msg, Html folium_Map, Sidebar_showing 0])"
    using True by (simp add: main_page_def a r main_map_def main_table_def)
  have d: "no_match_msg \<noteq> map_truncated_msg" "no_match_msg \<noteq> table_truncated_msg"
    by (simp_all add: no_match_msg_def map_truncated_msg_def table_truncated_msg_def)
  have "rendered_rows folium_Map = []"
    by (simp add: rendered_rows_def folium_Map_def)
  with True d show ?thesis
    unfolding p
    by (simp add: html_maps_def counts_def tables_def warnings_def)
next
  case False
  with assms obtain ps where "popup_content f = Some ps" by auto
  from main_page_nonempty [OF this False, of L st]
  obtain st' m where p: "main_page L st (Some f) =
      Inr (st', Html m # (if 1000 < length (rows f) then [Warning map_truncated_msg] else []) @ main_table st')"
    and st': "filtered_gdf st' = Some f" "map_truncated st' = (1000 < length (rows f))"
    and m: "rendered_rows m = take 1000 (rows f)"
    by blast
  note t = main_table_rows [OF st'(1) False]
  have d: "map_truncated_msg \<noteq> table_truncated_msg"
    by (simp add: map_truncated_msg_def table_truncated_msg_def)
  have w: "warnings (main_table st') = (if 1000 < length (rows f) then [table_truncated_msg] else [])"
    using st'(1) False
    by (simp add: main_table_def warnings_def)
  let ?out = "Html m # (if 1000 < length (rows f) then [Warning map_truncated_msg] else []) @ main_table st'"
  have h: "html_maps ?out = [m]"
    using t by (simp add: html_maps_def)
  have c: "counts ?out = [length (rows f)]"
    using t by (simp add: counts_def)
  have tb: "tables ?out = [take 1000 (rows f)]"
    using t by (simp add: tables_def)
  have ws: "warnings ?out = (if 1000 < length (rows f) then [map_truncated_msg, table_truncated_msg] else [])"
    using w by (simp add: warnings_def)
  show ?thesis
    unfolding p using h c tb ws st'(2) m d by auto
qed

theorem truncation_policy_witness:
  "popup_content thousand_and_one \<noteq> None \<and>
   1000 < length (rows thousand_and_one) \<and>
   (\<exists>st' out m.
      main_page demo_libs fresh_session (Some thousand_and_one) = Inr (st', out) \<and>
      html_maps out = [m] \<and> counts out = [1001] \<and> map_truncated st' \<and>
      length (rendered_rows m) = 1000 \<and> tables out = [replicate 1000 smith])"
proof -
  have p: "popup_content thousand_and_one \<noteq> None"
    by (simp add: thousand_and_one_def)
  then have p': "rows thousand_and_one \<noteq> [] \<longrightarrow> popup_content thousand_and_one \<noteq> None"
    by simp
  have n: "length (rows thousand_and_one) = 1001"
    by (simp add: thousand_and_one_def)
  have t: "take 1000 (rows thousand_and_one) = replicate 1000 smith"
    by (simp add: thousand_and_one_def)
  from truncation_policy [OF p', of demo_libs fresh_session]
  obtain st' out m where
    "main_page demo_libs fresh_session (Some thousand_and_one) = Inr (st', out)"
    "html_maps out = [m]" "counts out = [length (rows thousand_and_one)]"
    "1000 < length (rows thousand_and_one) \<longrightarrow>
              map_truncated st' \<and>
              rendered_rows m = take 1000 (rows thousand_and_one) \<and> length (rendered_rows m) = 1000 \<and>
              tables out = [take 1000 (rows thousand_and_one)]"
    by blast
  with p n t show ?thesis by auto
qed

lemma fold_min_Min: "fold min xs (x::real) = Min (set (x # xs))"
  by (rule Min.set_eq_fold [symmetric])

lemma fold_max_Max: "fold max xs (x::real) = Max (set (x # xs))"
  by (rule Max.set_eq_fold [symmetric])

lemma total_bounds_minimal:
  assumes "coords f \<noteq> []"
  shows "\<exists>b. total_bounds f = Some b \<and> encloses b (coords f) \<and> touched b (coords f)"
proof -
  from assms obtain x y cs where cs: "coords f = (x, y) # cs"
    by (cases "coords f") auto
  let ?xs = "map fst (coords f)" and ?ys = "map snd (coords f)"
  let ?b = "(Min (set ?xs), Min (set ?ys), Max (set ?xs), Max (set ?ys))"
  have ne: "set ?xs \<noteq> {}" "set ?ys \<noteq> {}" using cs by auto
  have tb: "total_bounds f = Some ?b"
    by (simp add: total_bounds_def cs fold_min_Min fold_max_Max)
  have enc: "encloses ?b (coords f)"
    unfolding encloses_def list_all_iff
  proof (clarsimp, intro conjI)
    fix a b assume in_cs: "(a, b) \<in> set (coords f)"
    then have a: "a \<in> set ?xs" and b: "b \<in> set ?ys" by force+
    from a show "Min (fst ` set (coords f)) \<le> a" by simp
    from a show "a \<le> Max (fst ` set (coords f))" by simp
    from b show "Min (snd ` set (coords f)) \<le> b" by simp
    from b show "b \<le> Max (snd ` set (coords f))" by simp
  qed
  have "Min (set ?xs) \<in> set ?xs" "Max (set ?xs) \<in> set ?xs"
    "Min (set ?ys) \<in> set ?ys" "Max (set ?ys) \<in> set ?ys"
    using ne by (simp_all del: set_map)
  then have tou: "touched ?b (coords f)"
    by (simp add: touched_def)
  from tb enc tou show ?thesis by blast
qed

lemma padded_bounds_pad: "total_bounds f = Some b \<Longrightarrow> padded_bounds f = pad b"
  by (cases b) (simp add: padded_bounds_def pad_def Let_def)

text \<open>
  Claim C5. For a frame with rows (and its popup column, and at least one coordinate
  among its geometries), the bounds kept in the session and fitted on the map shown are
  the padding of the box \<^verbatim>\<open>total_bounds\<close> returns, which is the minimal axis-aligned box
  around all coordinates: it encloses them and each of its sides touches one; the padding
  adds a tenth of the width on the west and on the east and a tenth of the height on the
  south and on the north; the map shown is not the default map. For a frame without rows
  the session has no bounds and the map shown is the fixed default map, on which no
  bounds are fitted.
\<close>

theorem result_bounds:
  assumes "rows f \<noteq> [] \<longrightarrow> popup_content f \<noteq> None \<and> coords f \<noteq> []"
  shows "\<exists>st' out m.
           main_page L st (Some f) = Inr (st', out) \<and> html_maps out = [m] \<and>
           (rows f \<noteq> [] \<longrightarrow>
              (\<exists>b. total_bounds f = Some b \<and> encloses b (coords f) \<and> touched b (coords f) \<and>
                    session_bounds st' = Some (pad b) \<and> fitted m = Some (pad b)) \<and>
              m \<noteq> folium_Map) \<and>
           (rows f = [] \<longrightarrow> session_bounds st' = None \<and> m = folium_Map \<and> fitted m = None)"
proof (cases "rows f = []")
  case True
  let ?st = "st\<lparr>filtered_gdf := Some f, session_bounds := None, map_file := None,
                 map_truncated := False\<rparr>"
  have a: "main_apply L st (Some f) = Inr (?st, [Warning no_match_msg])"
    using True by (simp add: main_apply_def)
  have r: "main_refresh L ?st = Inr ?st"
    using True by (simp add: main_refresh_def)
  have p: "main_page L st (Some f) =
          Inr (?st, [Warning no_match_msg, Html folium_Map, Sidebar_showing 0])"
    using True by (simp add: main_page_def a r main_map_def main_table_def)
  show ?thesis
    unfolding p using True by (simp add: html_maps_def folium_Map_def)
next
  case False
  with assms obtain ps where ps: "popup_content f = Some ps" and cs: "coords f \<noteq> []" by auto
  from main_page_nonempty [OF ps False, of L st]
  obtain st' m where p: "main_page L st (Some f) =
      Inr (st', Html m # (if 1000 < length (rows f) then [Warning map_truncated_msg] else []) @ main_table st')"
    and st': "filtered_gdf st' = Some f" "session_bounds st' = Some (padded_bounds f)"
    and m: "fitted m = Some (padded_bounds f)"
    by blast
  from total_bounds_minimal [OF cs]
  obtain b where b: "total_bounds f = Some b" "encloses b (coords f)" "touched b (coords f)"
    by blast
  note t = main_table_rows [OF st'(1) False]
  have h: "html_maps (Html m # (if 1000 < length (rows f) then [Warning map_truncated_msg] else []) @ main_table st') = [m]"
    using t by (simp add: html_maps_def)
  have d: "m \<noteq> folium_Map"
    using m by (auto simp: folium_Map_def)
  show ?thesis
    unfolding p using h b st'(2) m d False padded_bounds_pad [OF b(1)] by auto
qed

theorem result_bounds_witness:
  "popup_content demo_result \<noteq> None \<and> coords demo_result \<noteq> [] \<and>
   rows demo_result \<noteq> [] \<and>
   total_bounds demo_result = Some (- 88.3, 42.9, - 87.9, 43.2) \<and>
   (\<exists>st' out m.
      main_page demo_libs fresh_session (Some demo_result) = Inr (st', out) \<and> html_maps out = [m] \<and>
      fitted m = Some (Bounds (42.87, - 88.34) (43.23, - 87.86)))"
proof -
  have r: "rows demo_result \<noteq> []"
    by (simp add: demo_result_def demo_gdf_def assign_popup_def)
  have h0: "popup_content demo_result \<noteq> None \<and> coords demo_result \<noteq> []"
    by (simp add: demo_result_def demo_gdf_def assign_popup_def coords_def smith_def)
  then have h: "rows demo_result \<noteq> [] \<longrightarrow>
                  popup_content demo_result \<noteq> None \<and> coords demo_result \<noteq> []"
    by simp
  have tb: "total_bounds demo_result = Some (- 88.3, 42.9, - 87.9, 43.2)"
    by (simp add: total_bounds_def coords_def demo_result_def demo_gdf_def assign_popup_def
        demo_rows)
  have pd: "pad (- 88.3, 42.9, - 87.9, 43.2) = Bounds (42.87, - 88.34) (43.23, - 87.86)"
    by (simp add: pad_def)
  from result_bounds [OF h, of demo_libs fresh_session] r tb pd
  obtain st' out m where
    "main_page demo_libs fresh_session (Some demo_result) = Inr (st', out)" "html_maps out = [m]"
    "fitted m = Some (Bounds (42.87, - 88.34) (43.23, - 87.86))"
    by auto
  with h0 r tb show ?thesis by blast
qed

end
